theory Spec2Isabelle
  imports Complex_Main "HOL-Library.Word"
begin

section \<open>Values of the host language\<close>

text \<open>
  The harness is the TypeScript program \<^verbatim>\<open>src/build-transactions.ts\<close> (its first
  part, lines 1 to 441; lines 442 to 680 of that file are an earlier variant of the same
  program, with four scenarios, and are not modelled), with the one-off setup script
  \<^verbatim>\<open>src/setup-keypair.ts\<close>. Line numbers below refer to these files.
  Thrown exceptions are values of \<open>error\<close>; a computation that may throw returns
  \<open>error + 'a\<close> with \<open>Inl\<close> for the exception. \<open>Unmodelled\<close> is not an exception
  of the program: it marks an input that this model of a library function does not cover.
\<close>

datatype error =
    Error string
  | RangeError string
  | TypeError string
  | SyntaxError string
  | ENOENT string
  | Unmodelled string

type_synonym byte = "8 word"

text \<open>A JavaScript value as far as the harness inspects one (request bodies, responses).\<close>

datatype jsval =
    JUndefined
  | JNull
  | JBool bool
  | JNum int
  | JStr string
  | JArr "jsval list"
  | JObj "(string \<times> jsval) list"

definition bindS :: "error + 'a \<Rightarrow> ('a \<Rightarrow> error + 'b) \<Rightarrow> error + 'b" where
  "bindS r f = (case r of Inl e \<Rightarrow> Inl e | Inr x \<Rightarrow> f x)"

text \<open>\<^verbatim>\<open>!x\<close> on an optional string: true for \<^verbatim>\<open>undefined\<close> and for the empty string.\<close>

definition falsy :: "string option \<Rightarrow> bool" where
  "falsy v = (case v of None \<Rightarrow> True | Some s \<Rightarrow> s = [])"

text \<open>\<^verbatim>\<open>s.includes(t)\<close>: \<open>t\<close> occurs in \<open>s\<close> as a contiguous substring.\<close>

fun includes_str :: "string \<Rightarrow> string \<Rightarrow> bool" where
  "includes_str [] t = (t = [])"
| "includes_str (c # s) t = (take (length t) (c # s) = t \<or> includes_str s t)"

subsection \<open>Numbers\<close>

text \<open>
  A JavaScript \<^verbatim>\<open>number\<close> is an IEEE-754 binary64 value. The finite ones are modelled
  as the rationals they denote; \<open>to_double\<close> rounds a rational to the nearest value with
  a 53-bit significand, ties to even (the normal range only: the harness computes with
  values between \<open>1/100\<close> and \<open>3 * 10^7\<close>). \<open>bit_length n\<close> is the number of binary
  digits of \<open>n\<close>.
\<close>

type_synonym number = rat

function bit_length :: "int \<Rightarrow> int" where
  "bit_length n = (if n \<le> 0 then 0 else 1 + bit_length (n div 2))"
  by pat_completeness auto
termination
  by (relation "measure nat") auto

declare bit_length.simps [simp del]

definition pow2 :: "int \<Rightarrow> rat" where
  "pow2 e = (if 0 \<le> e then 2 ^ nat e else 1 / 2 ^ nat (- e))"

definition round_half_even :: "rat \<Rightarrow> int" where
  "round_half_even q =
     (let f = \<lfloor>q\<rfloor>; r = q - of_int f
      in if r < 1 / 2 then f else if 1 / 2 < r then f + 1 else if even f then f else f + 1)"

text \<open>The exponent \<open>e\<close> of the last significand bit: \<open>2^52 \<le> \<bar>q\<bar> / 2^e < 2^53\<close>.\<close>

definition ulp_exponent :: "rat \<Rightarrow> int" where
  "ulp_exponent q =
     (case quotient_of \<bar>q\<bar> of (a, b) \<Rightarrow>
        let k = bit_length a - bit_length b
        in if pow2 k \<le> \<bar>q\<bar> then k - 52 else k - 53)"

definition to_double :: "rat \<Rightarrow> number" where
  "to_double q =
     (if q = 0 then 0
      else let e = ulp_exponent q in of_int (round_half_even (q / pow2 e)) * pow2 e)"

text \<open>A decimal literal of the source denotes the double nearest to it.\<close>

definition number_literal :: "rat \<Rightarrow> number" where
  "number_literal q = to_double q"

text \<open>\<^verbatim>\<open>x * y\<close> on numbers: the exact product, rounded.\<close>

definition js_mul :: "number \<Rightarrow> number \<Rightarrow> number" where
  "js_mul x y = to_double (x * y)"

text \<open>\<^verbatim>\<open>BigInt(x)\<close> on a number throws a RangeError unless \<open>x\<close> is an integer.\<close>

definition BigInt :: "number \<Rightarrow> error + int" where
  "BigInt x =
     (if of_int \<lfloor>x\<rfloor> = x then Inr \<lfloor>x\<rfloor>
      else Inl (RangeError ''The number cannot be converted to a BigInt because it is not an integer''))"

text \<open>
  \<^verbatim>\<open>LAMPORTS_PER_SOL\<close> is imported from the ledger's client library
  (\<^verbatim>\<open>@solana/web3.js\<close>), where it is the number \<open>1000000000\<close>.
\<close>

definition LAMPORTS_PER_SOL :: number where
  "LAMPORTS_PER_SOL = 1000000000"

section \<open>Accounts and transactions\<close>

text \<open>A public key is written in base58, as \<^verbatim>\<open>toString()\<close> prints it.\<close>

type_synonym PublicKey = string

record Keypair =
  publicKey :: PublicKey
  secretKey :: "byte list"

text \<open>The system program's address is 32 zero bytes, in base58 thirty-two times \<open>1\<close>.\<close>

definition SystemProgram_programId :: PublicKey where
  "SystemProgram_programId = ''11111111111111111111111111111111''"

text \<open>
  The data of a system-program transfer instruction, \<^verbatim>\<open>SystemProgram.transfer(..).data\<close>:
  the instruction's tag and the lamports; the byte layout is the library's.
\<close>

datatype instruction_data = SystemTransfer int

record MessageHeader =
  numRequiredSignatures :: nat
  numReadonlySignedAccounts :: nat
  numReadonlyUnsignedAccounts :: nat

record CompiledInstruction =
  programIdIndex :: nat
  accountKeyIndexes :: "nat list"
  data :: instruction_data

record MessageAddressTableLookup =
  accountKey :: PublicKey
  writableIndexes :: "nat list"
  readonlyIndexes :: "nat list"

record MessageV0 =
  header :: MessageHeader
  staticAccountKeys :: "PublicKey list"
  recentBlockhash :: string
  compiledInstructions :: "CompiledInstruction list"
  addressTableLookups :: "MessageAddressTableLookup list"

record VersionedTransaction =
  message :: MessageV0
  signatures :: "byte list list"

text \<open>
  \<^verbatim>\<open>new VersionedTransaction(message)\<close> starts with one all-zero 64-byte signature
  for each required signature.
\<close>

definition new_VersionedTransaction :: "MessageV0 \<Rightarrow> VersionedTransaction" where
  "new_VersionedTransaction m =
     \<lparr>message = m,
      signatures = replicate (numRequiredSignatures (header m)) (replicate 64 0)\<rparr>"



text \<open>
  \<^verbatim>\<open>SystemProgram.transfer(..)\<close> (lines 56 to 60), of which the builder uses the data:
  the library encodes the lamports as an unsigned 64-bit integer and throws when they do
  not fit.
\<close>

definition SystemProgram_transfer_data :: "int \<Rightarrow> error + instruction_data" where
  "SystemProgram_transfer_data lamports =
     (if 0 \<le> lamports \<and> lamports < 2 ^ 64 then Inr (SystemTransfer lamports)
      else Inl (Error ''lamports out of range''))"

text \<open>
  \<^verbatim>\<open>createTestTransaction\<close> (lines 50 to 85): the instruction (lines 56 to 60), then
  the message and the transaction around its data (lines 62 to 84).
\<close>

definition transfer_transaction ::
  "Keypair \<Rightarrow> PublicKey \<Rightarrow> instruction_data \<Rightarrow> string \<Rightarrow> VersionedTransaction" where
  "transfer_transaction fromKeypair toPubkey instruction_data blockhash =
     (let messageV0 =
            \<lparr>header =
               \<lparr>numRequiredSignatures = 1,
                numReadonlySignedAccounts = 0,
                numReadonlyUnsignedAccounts = 1\<rparr>,
             staticAccountKeys = [publicKey fromKeypair, toPubkey, SystemProgram_programId],
             recentBlockhash = blockhash,
             compiledInstructions =
               [\<lparr>programIdIndex = 2, accountKeyIndexes = [0, 1], data = instruction_data\<rparr>],
             addressTableLookups = []\<rparr>
      in new_VersionedTransaction messageV0)"

definition createTestTransaction ::
  "Keypair \<Rightarrow> PublicKey \<Rightarrow> int \<Rightarrow> string \<Rightarrow> error + VersionedTransaction" where
  "createTestTransaction fromKeypair toPubkey amount blockhash =
     bindS (SystemProgram_transfer_data amount) (\<lambda>instruction_data.
     Inr (transfer_transaction fromKeypair toPubkey instruction_data blockhash))"

section \<open>The key file\<close>

text \<open>
  \<^verbatim>\<open>keypair.json\<close> is written by the setup script and read by the harness. The
  text written is \<^verbatim>\<open>`[${Buffer.from(keypair.secretKey.toString())}]`\<close>:
  \<^verbatim>\<open>toString()\<close> of a \<^verbatim>\<open>Uint8Array\<close> joins the decimal numerals of its bytes
  with commas, \<^verbatim>\<open>Buffer.from\<close> encodes that string in UTF-8 and the template
  literal decodes it again.
\<close>

definition digit_char :: "nat \<Rightarrow> char" where
  "digit_char d = char_of (48 + d)"

function decimal :: "nat \<Rightarrow> string" where
  "decimal n = (if n < 10 then [digit_char n] else decimal (n div 10) @ [digit_char (n mod 10)])"
  by pat_completeness auto
termination
  by (relation "measure id") auto

declare decimal.simps [simp del]

fun join_commas :: "string list \<Rightarrow> string" where
  "join_commas [] = []"
| "join_commas [x] = x"
| "join_commas (x # y # ys) = x @ CHR '','' # join_commas (y # ys)"

definition Uint8Array_toString :: "byte list \<Rightarrow> string" where
  "Uint8Array_toString bs = join_commas (map (\<lambda>b. decimal (unat b)) bs)"

text \<open>
  UTF-8 on the strings that occur here (digits and commas, all ASCII) is one byte for
  each character.
\<close>

definition Buffer_from :: "string \<Rightarrow> byte list" where
  "Buffer_from s = map (\<lambda>c. of_nat (of_char c)) s"

definition Buffer_toString :: "byte list \<Rightarrow> string" where
  "Buffer_toString bs = map (\<lambda>b. char_of (unat b)) bs"

text \<open>
  \<^verbatim>\<open>JSON.parse\<close> on arrays of integers: decimal integer literals (an optional minus
  sign, no leading zero) between brackets, separated by commas, with white space allowed
  around every token. JSON texts of any other form (fractions, exponents, strings, nested
  values) are outside this model.
\<close>

definition is_digit :: "char \<Rightarrow> bool" where
  "is_digit c = (48 \<le> (of_char c :: nat) \<and> (of_char c :: nat) \<le> 57)"

definition is_ws :: "char \<Rightarrow> bool" where
  "is_ws c = (c = CHR '' '' \<or> c = CHR 0x09 \<or> c = CHR 0x0A \<or> c = CHR 0x0D)"

definition trim :: "string \<Rightarrow> string" where
  "trim s = rev (dropWhile is_ws (rev (dropWhile is_ws s)))"

definition digits_value :: "string \<Rightarrow> nat" where
  "digits_value s = foldl (\<lambda>acc c. 10 * acc + (of_char c - 48)) 0 s"

definition parse_number :: "string \<Rightarrow> nat option" where
  "parse_number s =
     (if s \<noteq> [] \<and> list_all is_digit s \<and> (if length s = 1 then True else hd s \<noteq> CHR ''0'')
      then Some (digits_value s) else None)"

definition parse_integer :: "string \<Rightarrow> int option" where
  "parse_integer s =
     (case s of
        [] \<Rightarrow> None
      | c # ds \<Rightarrow>
          if c = CHR ''-'' then map_option (\<lambda>n. - int n) (parse_number ds)
          else map_option int (parse_number s))"

fun split_commas :: "string \<Rightarrow> string list" where
  "split_commas [] = [[]]"
| "split_commas (c # s) =
     (if c = CHR '','' then [] # split_commas s
      else (case split_commas s of [] \<Rightarrow> [[c]] | x # xs \<Rightarrow> (c # x) # xs))"

definition JSON_parse :: "string \<Rightarrow> error + int list" where
  "JSON_parse s =
     (case trim s of
        [] \<Rightarrow> Inl (SyntaxError ''Unexpected end of JSON input'')
      | c # rest \<Rightarrow>
          if c = CHR ''['' \<and> rest \<noteq> [] \<and> last rest = CHR '']''
          then (let body = butlast rest
                in if trim body = [] then Inr []
                   else (case those (map (\<lambda>piece. parse_integer (trim piece)) (split_commas body)) of
                           None \<Rightarrow> Inl (Unmodelled ''JSON text that is not an array of integers'')
                         | Some ns \<Rightarrow> Inr ns))
          else Inl (Unmodelled ''JSON text that is not an array of integers''))"

text \<open>\<^verbatim>\<open>Uint8Array.from\<close> reduces every number modulo 256.\<close>

definition Uint8Array_from :: "int list \<Rightarrow> byte list" where
  "Uint8Array_from ns = map word_of_int ns"

section \<open>The process and its surroundings\<close>

text \<open>
  What the process does to the outside is a log of events, in the order issued. What the
  outside answers is given by the \<open>world\<close>: each answer may depend on everything
  the process has done so far (the log). The world also holds the environment variables
  (after \<^verbatim>\<open>dotenv.config()\<close>), the command-line argument, the files present at the
  start, and the capabilities of the ledger's client library that the harness only calls:
  key generation and validation, wire serialisation, base58, signing.
\<close>

datatype request =
    GetBalance PublicKey
  | GetLatestBlockhash
  | ConfirmTransaction string string nat
  | Post string jsval

datatype event =
    Net request
  | ConsoleError string
  | ConsoleErrorThrown string error
  | WriteFile string jsval

record world =
  env_ATLAS_SERVICE_URL :: "string option"
  env_RPC_URL :: "string option"
  env_PUBLIC_DEVNET_RPC :: "string option"
  argv2 :: "string option"
  files :: "string \<rightharpoonup> string"
  Keypair_fromSecretKey :: "byte list \<Rightarrow> error + Keypair"
  Keypair_generate :: "nat \<Rightarrow> Keypair"
  tx_serialize :: "VersionedTransaction \<Rightarrow> byte list"
  bs58_encode :: "byte list \<Rightarrow> string"
  bs58_decode :: "string \<Rightarrow> byte list option"
  ed25519_sign :: "MessageV0 \<Rightarrow> byte list \<Rightarrow> byte list"
  rpc_getBalance :: "event list \<Rightarrow> PublicKey \<Rightarrow> error + int"
  rpc_getLatestBlockhash :: "event list \<Rightarrow> error + string \<times> nat"
  rpc_confirmTransaction :: "event list \<Rightarrow> string \<Rightarrow> string \<Rightarrow> nat \<Rightarrow> error + unit"
  axios_post :: "event list \<Rightarrow> string \<Rightarrow> jsval \<Rightarrow> error + nat \<times> jsval"

type_synonym 'a io = "event list \<Rightarrow> (error + 'a) \<times> event list"

definition returnE :: "'a \<Rightarrow> 'a io" where
  "returnE x = (\<lambda>evs. (Inr x, evs))"

definition throwE :: "error \<Rightarrow> 'a io" where
  "throwE e = (\<lambda>evs. (Inl e, evs))"

definition liftE :: "error + 'a \<Rightarrow> 'a io" where
  "liftE r = (\<lambda>evs. (r, evs))"

definition bindE :: "'a io \<Rightarrow> ('a \<Rightarrow> 'b io) \<Rightarrow> 'b io" where
  "bindE m f =
     (\<lambda>evs. case m evs of (Inl e, evs') \<Rightarrow> (Inl e, evs') | (Inr x, evs') \<Rightarrow> f x evs')"

definition emit :: "event \<Rightarrow> unit io" where
  "emit ev = (\<lambda>evs. (Inr (), evs @ [ev]))"

text \<open>
  An async function that awaits one request and then goes on is given by what it does up
  to the answer of that request and by what it does with the answer. Calling it runs the
  first part at once; \<^verbatim>\<open>await\<close> on the call runs both.
\<close>

type_synonym ('x, 'a) async = "'x io \<times> ('x \<Rightarrow> 'a io)"

definition await :: "('x, 'a) async \<Rightarrow> 'a io" where
  "await c = bindE (fst c) (snd c)"

text \<open>
  \<^verbatim>\<open>Promise.all(xs.map(async ...))\<close>: \<^verbatim>\<open>map\<close> calls every function, in index order,
  so the first request of each is issued before any of them goes on; each then goes on with
  its answer, whether or not another one failed. The answers are taken to arrive in the
  order of the requests. A computation that fails on its first answer, or goes on from it
  to fail without a further request, has failed before the next answer arrives; one that
  goes on to a further request fails, if it does, when that one is answered. The result is
  the list of results, or the failure that comes first. The log holds the requests of all
  the computations, also of those that go on after that failure.
\<close>

fun start_all ::
  "('x, 'a) async list \<Rightarrow> event list \<Rightarrow> ((error + 'x) \<times> ('x \<Rightarrow> 'a io)) list \<times> event list" where
  "start_all [] evs = ([], evs)"
| "start_all (c # cs) evs =
     (case fst c evs of (r, evs1) \<Rightarrow>
        (case start_all cs evs1 of (rs, evs2) \<Rightarrow> ((r, snd c) # rs, evs2)))"

fun resume_all ::
  "((error + 'x) \<times> ('x \<Rightarrow> 'a io)) list \<Rightarrow> event list \<Rightarrow>
     (bool \<times> (error + 'a)) list \<times> event list" where
  "resume_all [] evs = ([], evs)"
| "resume_all (c # cs) evs =
     (case fst c of
        Inl e \<Rightarrow> (case resume_all cs evs of (rs, evs') \<Rightarrow> ((True, Inl e) # rs, evs'))
      | Inr x \<Rightarrow>
          (case snd c x evs of (r, evs1) \<Rightarrow>
             (case resume_all cs evs1 of (rs, evs2) \<Rightarrow> ((evs1 = evs, r) # rs, evs2))))"

fun collect :: "(error + 'a) list \<Rightarrow> error + 'a list" where
  "collect [] = Inr []"
| "collect (r # rs) =
     (case r of
        Inl e \<Rightarrow> Inl e
      | Inr x \<Rightarrow> (case collect rs of Inl e \<Rightarrow> Inl e | Inr xs \<Rightarrow> Inr (x # xs)))"

definition promise_all :: "('x, 'a) async list \<Rightarrow> 'a list io" where
  "promise_all cs =
     (\<lambda>evs. case start_all cs evs of (started, evs1) \<Rightarrow>
        (case resume_all started evs1 of (results, evs2) \<Rightarrow>
           ((case collect (map snd (filter fst results)) of
               Inl e \<Rightarrow> Inl e
             | Inr _ \<Rightarrow> collect (map snd results)),
            evs2)))"

text \<open>\<^verbatim>\<open>loadKeypair\<close> (lines 45 to 48).\<close>

definition readFileSync :: "world \<Rightarrow> string \<Rightarrow> error + string" where
  "readFileSync w path =
     (case files w path of None \<Rightarrow> Inl (ENOENT path) | Some text \<Rightarrow> Inr text)"

definition loadKeypair :: "world \<Rightarrow> error + Keypair" where
  "loadKeypair w =
     bindS (readFileSync w ''keypair.json'') (\<lambda>text.
     bindS (JSON_parse text) (\<lambda>keypairData.
     Keypair_fromSecretKey w (Uint8Array_from keypairData)))"

section \<open>Ledger gateway and relay client\<close>

text \<open>
  \<^verbatim>\<open>checkBalance\<close> (lines 144 to 150). \<^verbatim>\<open>connection.getBalance\<close> delivers the
  lamports the ledger answers (an unsigned 64-bit integer) as a number, the double nearest
  to them (the lamports themselves up to \<open>2^53\<close>), which \<^verbatim>\<open>BigInt\<close> converts.
\<close>

definition checkBalance :: "world \<Rightarrow> PublicKey \<Rightarrow> int io" where
  "checkBalance w pubkey =
     (\<lambda>evs. (bindS (rpc_getBalance w evs pubkey)
               (\<lambda>lamports. BigInt (to_double (of_int lamports))),
             evs @ [Net (GetBalance pubkey)]))"

text \<open>\<^verbatim>\<open>connection.getLatestBlockhash()\<close>.\<close>

definition getLatestBlockhash :: "world \<Rightarrow> (string \<times> nat) io" where
  "getLatestBlockhash w = (\<lambda>evs. (rpc_getLatestBlockhash w evs, evs @ [Net GetLatestBlockhash]))"

text \<open>
  \<^verbatim>\<open>confirmTransaction\<close> (lines 156 to 165), at commitment \<^verbatim>\<open>finalized\<close>: it
  awaits the latest reference point and then the library's confirmation, which refuses a
  signature that is not the base58 text of 64 bytes before it asks the ledger.
\<close>

definition confirmTransaction :: "world \<Rightarrow> jsval \<Rightarrow> (string \<times> nat, unit) async" where
  "confirmTransaction w signature =
     (getLatestBlockhash w,
      \<lambda>(blockhash, lastValidBlockHeight).
        (case signature of
           JStr sig \<Rightarrow>
             (case bs58_decode w sig of
                None \<Rightarrow> throwE (Error ''signature must be base58 encoded'')
              | Some decoded \<Rightarrow>
                  if length decoded = 64
                  then (\<lambda>evs. (rpc_confirmTransaction w evs sig blockhash lastValidBlockHeight,
                             evs @ [Net (ConfirmTransaction sig blockhash lastValidBlockHeight)]))
                  else throwE (Error ''signature has invalid length''))
         | _ \<Rightarrow> throwE (Error ''signature must be base58 encoded'')))"

text \<open>The template literal \<^verbatim>\<open>`${ATLAS_SERVICE_URL}`\<close>.\<close>

definition service_url :: "world \<Rightarrow> string" where
  "service_url w = (case env_ATLAS_SERVICE_URL w of None \<Rightarrow> ''undefined'' | Some u \<Rightarrow> u)"

text \<open>\<^verbatim>\<open>axios.post\<close>: the request is issued; a status outside 2xx rejects.\<close>

definition axios_request :: "world \<Rightarrow> string \<Rightarrow> jsval \<Rightarrow> (nat \<times> jsval) io" where
  "axios_request w url body =
     (\<lambda>evs. (case axios_post w evs url body of
               Inl e \<Rightarrow> Inl e
             | Inr (status, d) \<Rightarrow>
                 if 200 \<le> status \<and> status < 300 then Inr (status, d)
                 else Inl (Error ''Request failed with status code''),
             evs @ [Net (Post url body)]))"

definition catchE :: "'a io \<Rightarrow> (error \<Rightarrow> 'a io) \<Rightarrow> 'a io" where
  "catchE m h =
     (\<lambda>evs. case m evs of (Inl e, evs') \<Rightarrow> h e evs' | (Inr x, evs') \<Rightarrow> (Inr x, evs'))"

text \<open>\<^verbatim>\<open>sendTransaction\<close> (lines 87 to 112); the result is \<^verbatim>\<open>response.data\<close>.\<close>

definition sendTransaction :: "world \<Rightarrow> VersionedTransaction \<Rightarrow> jsval io" where
  "sendTransaction w tx =
     (let serializedTx = bs58_encode w (tx_serialize w tx)
      in catchE
           (bindE
              (axios_request w (service_url w)
                 (JObj
                    [(''jsonrpc'', JStr ''2.0''),
                     (''id'', JNum 1),
                     (''method'', JStr ''sendTransaction''),
                     (''params'',
                        JArr
                          [JStr serializedTx,
                           JObj [(''skipPreflight'', JBool True), (''encoding'', JStr ''base58'')]])]))
              (\<lambda>(status, d). returnE d))
           (\<lambda>err. bindE (emit (ConsoleErrorThrown ''Error sending transaction:'' err))
                    (\<lambda>_. throwE err)))"

text \<open>\<^verbatim>\<open>sendTransactionBundle\<close> (lines 114 to 142).\<close>

definition sendTransactionBundle :: "world \<Rightarrow> VersionedTransaction list \<Rightarrow> jsval io" where
  "sendTransactionBundle w txs =
     (let serializedTxs = map (\<lambda>tx. bs58_encode w (tx_serialize w tx)) txs
      in catchE
           (bindE
              (axios_request w (service_url w)
                 (JObj
                    [(''jsonrpc'', JStr ''2.0''),
                     (''id'', JNum 1),
                     (''method'', JStr ''sendTransactionBundle''),
                     (''params'',
                        JArr
                          [JArr (map JStr serializedTxs),
                           JObj [(''skipPreflight'', JBool True), (''encoding'', JStr ''base58'')]])]))
              (\<lambda>(status, d). returnE d))
           (\<lambda>err. bindE (emit (ConsoleErrorThrown ''Error sending transaction bundle:'' err))
                    (\<lambda>_. throwE err)))"

text \<open>A property read \<^verbatim>\<open>v.k\<close>, and the receiver of \<^verbatim>\<open>v.map(..)\<close>.\<close>

fun js_get :: "jsval \<Rightarrow> string \<Rightarrow> error + jsval" where
  "js_get JUndefined k = Inl (TypeError ''Cannot read properties of undefined'')"
| "js_get JNull k = Inl (TypeError ''Cannot read properties of null'')"
| "js_get (JObj kvs) k = Inr (case map_of kvs k of None \<Rightarrow> JUndefined | Some v \<Rightarrow> v)"
| "js_get (JArr xs) k = Inr (if k = ''length'' then JNum (int (length xs)) else JUndefined)"
| "js_get (JStr s) k = Inr (if k = ''length'' then JNum (int (length s)) else JUndefined)"
| "js_get (JBool b) k = Inr JUndefined"
| "js_get (JNum n) k = Inr JUndefined"

definition js_array :: "jsval \<Rightarrow> error + jsval list" where
  "js_array v =
     (case v of
        JArr xs \<Rightarrow> Inr xs
      | JUndefined \<Rightarrow> Inl (TypeError ''Cannot read properties of undefined'')
      | JNull \<Rightarrow> Inl (TypeError ''Cannot read properties of null'')
      | _ \<Rightarrow> Inl (TypeError ''map is not a function''))"

section \<open>The scenario runner\<close>

text \<open>
  \<^verbatim>\<open>runTest\<close> (lines 167 to 413), in the order of the source: preparation (lines 168
  to 205), the first \<^verbatim>\<open>switch\<close> that declares the expected changes and builds the
  transactions (lines 207 to 306), signing (line 309), the second \<^verbatim>\<open>switch\<close> that
  submits and confirms (lines 312 to 363), verification (lines 365 to 402) and the
  run-output file (lines 404 to 412).
\<close>

record run_context =
  ctx_keypair :: Keypair
  ctx_numRecipients :: nat
  ctx_recipients :: "Keypair list"
  ctx_senderInitialBalance :: int
  ctx_recipientInitialBalances :: "int list"
  ctx_recentBlockhash :: string

definition runTest_prepare :: "world \<Rightarrow> string \<Rightarrow> run_context io" where
  "runTest_prepare w mode =
     bindE (liftE (loadKeypair w)) (\<lambda>keypair.
     let numRecipients = (if includes_str mode ''bundle'' then 2 else 1);
         recipients = map (Keypair_generate w) [0..<numRecipients]
     in
     bindE (checkBalance w (publicKey keypair)) (\<lambda>senderInitialBalance.
     bindE (promise_all (map (\<lambda>recipient. (checkBalance w (publicKey recipient), returnE))
                           recipients))
       (\<lambda>recipientInitialBalances.
     bindE (getLatestBlockhash w) (\<lambda>(blockhash, lastValidBlockHeight).
     returnE
       \<lparr>ctx_keypair = keypair,
        ctx_numRecipients = numRecipients,
        ctx_recipients = recipients,
        ctx_senderInitialBalance = senderInitialBalance,
        ctx_recipientInitialBalances = recipientInitialBalances,
        ctx_recentBlockhash = blockhash\<rparr>))))"

record plan =
  expectedSenderChange :: int
  expectedRecipientChanges :: "int list"
  transactions :: "VersionedTransaction list"

text \<open>
  \<^verbatim>\<open>recipients[i].publicKey\<close> and \<^verbatim>\<open>xs[i] += v\<close> on bigints: past the end of the
  array the element is \<^verbatim>\<open>undefined\<close> and both throw a TypeError.
\<close>

definition recipient_publicKey :: "Keypair list \<Rightarrow> nat \<Rightarrow> error + PublicKey" where
  "recipient_publicKey recipients i =
     (if i < length recipients then Inr (publicKey (recipients ! i))
      else Inl (TypeError ''Cannot read properties of undefined''))"

definition add_assign_at :: "int list \<Rightarrow> nat \<Rightarrow> int \<Rightarrow> error + int list" where
  "add_assign_at xs i v =
     (if i < length xs then Inr (xs[i := xs ! i + v])
      else Inl (TypeError ''Cannot mix BigInt and other types''))"

definition txnFee :: int where
  "txnFee = 5000"

definition runTest_build ::
  "string \<Rightarrow> Keypair \<Rightarrow> Keypair list \<Rightarrow> nat \<Rightarrow> string \<Rightarrow> error + plan" where
  "runTest_build mode keypair recipients numRecipients latestBlockhash =
     (let expectedSenderChange0 = (0 :: int);
          expectedRecipientChanges0 = replicate numRecipients (0 :: int)
      in
      if mode = ''valid-single'' then
        bindS (BigInt (js_mul (number_literal (1 / 100)) LAMPORTS_PER_SOL)) (\<lambda>amount.
        bindS (add_assign_at expectedRecipientChanges0 0 amount) (\<lambda>changes.
        bindS (recipient_publicKey recipients 0) (\<lambda>to0.
        bindS (createTestTransaction keypair to0 amount latestBlockhash) (\<lambda>tx0.
        Inr \<lparr>expectedSenderChange = expectedSenderChange0 - (amount + txnFee),
             expectedRecipientChanges = changes,
             transactions = [tx0]\<rparr>))))
      else if mode = ''invalid-single'' then
        bindS (BigInt (js_mul LAMPORTS_PER_SOL (number_literal (3 / 100)))) (\<lambda>amount.
        bindS (add_assign_at expectedRecipientChanges0 0 amount) (\<lambda>changes.
        bindS (recipient_publicKey recipients 0) (\<lambda>to0.
        bindS (createTestTransaction keypair to0 amount ''11111111111111111111111111111111'') (\<lambda>tx0.
        Inr \<lparr>expectedSenderChange = expectedSenderChange0 - (amount + txnFee),
             expectedRecipientChanges = changes,
             transactions = [tx0]\<rparr>))))
      else if mode = ''valid-bundle'' then
        bindS (BigInt (js_mul LAMPORTS_PER_SOL (number_literal (1 / 100)))) (\<lambda>amount1.
        bindS (BigInt (js_mul LAMPORTS_PER_SOL (number_literal (2 / 100)))) (\<lambda>amount2.
        bindS (add_assign_at expectedRecipientChanges0 0 amount1) (\<lambda>changes1.
        bindS (add_assign_at changes1 1 amount2) (\<lambda>changes2.
        bindS (recipient_publicKey recipients 0) (\<lambda>to0.
        bindS (createTestTransaction keypair to0 amount1 latestBlockhash) (\<lambda>tx0.
        bindS (recipient_publicKey recipients 1) (\<lambda>to1.
        bindS (createTestTransaction keypair to1 amount2 latestBlockhash) (\<lambda>tx1.
        Inr \<lparr>expectedSenderChange = expectedSenderChange0 - (amount1 + amount2 + txnFee * 2),
             expectedRecipientChanges = changes2,
             transactions = [tx0, tx1]\<rparr>))))))))
      else if mode = ''invalid-bundle-first'' then
        bindS (BigInt (js_mul LAMPORTS_PER_SOL (number_literal (1 / 100)))) (\<lambda>amount1.
        bindS (BigInt (js_mul LAMPORTS_PER_SOL (number_literal (2 / 100)))) (\<lambda>amount2.
        bindS (add_assign_at expectedRecipientChanges0 0 amount1) (\<lambda>changes1.
        bindS (add_assign_at changes1 1 amount2) (\<lambda>changes2.
        bindS (recipient_publicKey recipients 0) (\<lambda>to0.
        bindS (createTestTransaction keypair to0 amount1 ''11111111111111111111111111111111'') (\<lambda>tx0.
        bindS (recipient_publicKey recipients 1) (\<lambda>to1.
        bindS (createTestTransaction keypair to1 amount2 latestBlockhash) (\<lambda>tx1.
        Inr \<lparr>expectedSenderChange = expectedSenderChange0 - (amount1 + amount2 + txnFee * 2),
             expectedRecipientChanges = changes2,
             transactions = [tx0, tx1]\<rparr>))))))))
      else if mode = ''invalid-bundle-second'' then
        bindS (BigInt (js_mul LAMPORTS_PER_SOL (number_literal (1 / 100)))) (\<lambda>amount1.
        bindS (BigInt (js_mul LAMPORTS_PER_SOL (number_literal (2 / 100)))) (\<lambda>amount2.
        bindS (add_assign_at expectedRecipientChanges0 0 amount1) (\<lambda>changes1.
        bindS (add_assign_at changes1 1 amount2) (\<lambda>changes2.
        bindS (recipient_publicKey recipients 0) (\<lambda>to0.
        bindS (createTestTransaction keypair to0 amount1 latestBlockhash) (\<lambda>tx0.
        bindS (recipient_publicKey recipients 1) (\<lambda>to1.
        bindS (createTestTransaction keypair to1 amount2 ''11111111111111111111111111111111'') (\<lambda>tx1.
        Inr \<lparr>expectedSenderChange = expectedSenderChange0 - (amount1 + amount2 + txnFee * 2),
             expectedRecipientChanges = changes2,
             transactions = [tx0, tx1]\<rparr>))))))))
      else
        Inr \<lparr>expectedSenderChange = expectedSenderChange0,
             expectedRecipientChanges = expectedRecipientChanges0,
             transactions = []\<rparr>)"

text \<open>
  \<^verbatim>\<open>tx.sign([keypair])\<close>: the signature goes to the position of the signer's key among
  the required signers; a key that is not among them is refused.
\<close>

fun index_of :: "'a \<Rightarrow> 'a list \<Rightarrow> nat option" where
  "index_of x [] = None"
| "index_of x (y # ys) =
     (if x = y then Some 0 else (case index_of x ys of None \<Rightarrow> None | Some i \<Rightarrow> Some (Suc i)))"

definition sign_tx :: "world \<Rightarrow> Keypair \<Rightarrow> VersionedTransaction \<Rightarrow> error + VersionedTransaction" where
  "sign_tx w signer tx =
     (let signerPubkeys =
            take (numRequiredSignatures (header (message tx))) (staticAccountKeys (message tx))
      in case index_of (publicKey signer) signerPubkeys of
           None \<Rightarrow> Inl (Error ''Cannot sign with non signer key'')
         | Some i \<Rightarrow>
             Inr (tx\<lparr>signatures :=
                       (signatures tx)[i := ed25519_sign w (message tx) (secretKey signer)]\<rparr>))"

fun sign_all :: "world \<Rightarrow> Keypair \<Rightarrow> VersionedTransaction list \<Rightarrow> error + VersionedTransaction list" where
  "sign_all w signer [] = Inr []"
| "sign_all w signer (tx # txs) =
     bindS (sign_tx w signer tx) (\<lambda>tx'.
     bindS (sign_all w signer txs) (\<lambda>txs'. Inr (tx' # txs')))"

definition runTest_submit :: "world \<Rightarrow> string \<Rightarrow> VersionedTransaction list \<Rightarrow> unit io" where
  "runTest_submit w mode txs =
     (if mode = ''valid-single'' \<or> mode = ''invalid-single'' then
        (case txs of
           [] \<Rightarrow> throwE (TypeError ''Cannot read properties of undefined'')
         | tx # _ \<Rightarrow>
             bindE (sendTransaction w tx) (\<lambda>response.
             bindE (liftE (js_get response ''result'')) (\<lambda>result.
             await (confirmTransaction w result))))
      else if mode = ''valid-bundle'' then
        bindE (sendTransactionBundle w txs) (\<lambda>bundleResponse.
        bindE (liftE (js_get bundleResponse ''result'')) (\<lambda>result.
        bindE (liftE (js_array result)) (\<lambda>sigs.
        bindE (promise_all (map (confirmTransaction w) sigs)) (\<lambda>_. returnE ()))))
      else if mode = ''invalid-bundle-first'' then
        bindE (sendTransactionBundle w txs) (\<lambda>bundleResponse.
        bindE (liftE (js_get bundleResponse ''result'')) (\<lambda>result.
        bindE (liftE (js_get result ''length'')) (\<lambda>_. returnE ())))
      else if mode = ''invalid-bundle-second'' then
        bindE (sendTransactionBundle w txs) (\<lambda>bundleResponse.
        bindE (liftE (js_get bundleResponse ''result'')) (\<lambda>result.
        bindE (liftE (js_get result ''length'')) (\<lambda>_.
        bindE (liftE (js_array result)) (\<lambda>sigs.
        bindE (promise_all (map (confirmTransaction w) sigs)) (\<lambda>_. returnE ())))))
      else returnE ())"

text \<open>
  What the verification prints: the actual and the expected change of the sender and
  whether they are equal, and the same for each recipient. The indices used are within
  the three lists, which all have \<open>numRecipients\<close> elements.
\<close>

record report =
  actualSenderChange :: int
  declaredSenderChange :: int
  senderMatched :: bool
  recipientRows :: "(int \<times> int \<times> bool) list"

definition runTest_verify :: "world \<Rightarrow> run_context \<Rightarrow> plan \<Rightarrow> report io" where
  "runTest_verify w ctx p =
     bindE (checkBalance w (publicKey (ctx_keypair ctx))) (\<lambda>senderFinalBalance.
     let actualSenderChange = senderFinalBalance - ctx_senderInitialBalance ctx in
     bindE
       (promise_all
          (map (\<lambda>i.
                  (checkBalance w (publicKey (ctx_recipients ctx ! i)),
                   \<lambda>finalBalance.
                     let actualChange = finalBalance - ctx_recipientInitialBalances ctx ! i
                     in returnE
                          (actualChange, expectedRecipientChanges p ! i,
                           actualChange = expectedRecipientChanges p ! i)))
             [0..<length (ctx_recipients ctx)]))
       (\<lambda>rows.
     returnE
       \<lparr>actualSenderChange = actualSenderChange,
        declaredSenderChange = expectedSenderChange p,
        senderMatched = (actualSenderChange = expectedSenderChange p),
        recipientRows = rows\<rparr>))"

text \<open>The first \<^verbatim>\<open>switch\<close>, on what the preparation left.\<close>

definition declared_plan :: "string \<Rightarrow> run_context \<Rightarrow> error + plan" where
  "declared_plan mode ctx =
     runTest_build mode (ctx_keypair ctx) (ctx_recipients ctx) (ctx_numRecipients ctx)
       (ctx_recentBlockhash ctx)"

definition runTest :: "world \<Rightarrow> string \<Rightarrow> report io" where
  "runTest w mode =
     bindE (runTest_prepare w mode) (\<lambda>ctx.
     bindE (liftE (declared_plan mode ctx)) (\<lambda>p.
     bindE (liftE (sign_all w (ctx_keypair ctx) (transactions p))) (\<lambda>signed.
     bindE (runTest_submit w mode signed) (\<lambda>_.
     bindE (runTest_verify w ctx p) (\<lambda>r.
     bindE (emit (WriteFile ''test-transactions.json''
              (JObj
                 [(''transactions'',
                     JArr (map (\<lambda>tx. JArr (map (\<lambda>b. JNum (uint b)) (tx_serialize w tx))) signed)),
                  (''mode'', JStr mode)]))) (\<lambda>_.
     returnE r))))))"

section \<open>Entry point\<close>

text \<open>\<^verbatim>\<open>main\<close> (lines 415 to 439). \<^verbatim>\<open>process.exit(1)\<close> ends the process at once.\<close>

definition TestModes :: "string list" where
  "TestModes =
     [''valid-single'', ''invalid-single'', ''valid-bundle'', ''invalid-bundle-first'',
      ''invalid-bundle-second'']"

definition usage_lines :: "string list" where
  "usage_lines =
     [''Please specify a test mode:'',
      ''valid-single  - Test sending a single valid transaction'',
      ''invalid-single - Test sending a single stale transaction'',
      ''valid-bundle   - Test sending a bundle of valid transactions'',
      ''invalid-bundle-first - Test sending a bundle of stale transactions with first tx invalid'',
      ''invalid-bundle-second - Test sending a bundle of stale transactions with second tx invalid'']"

definition usage :: string where
  "usage = concat (map (\<lambda>l. l @ [CHR 0x0A]) usage_lines)"

definition array_includes :: "string list \<Rightarrow> string option \<Rightarrow> bool" where
  "array_includes xs v = (case v of None \<Rightarrow> False | Some s \<Rightarrow> s \<in> set xs)"

datatype 'a completion = Exited nat | Returned 'a

definition main :: "world \<Rightarrow> report completion io" where
  "main w =
     (let mode = argv2 w
      in if falsy mode \<or> \<not> array_includes TestModes mode
         then bindE (emit (ConsoleError usage)) (\<lambda>_. returnE (Exited 1))
         else (case mode of
                 None \<Rightarrow> bindE (emit (ConsoleError usage)) (\<lambda>_. returnE (Exited 1))
               | Some m \<Rightarrow> bindE (runTest w m) (\<lambda>r. returnE (Returned r))))"

text \<open>
  The module, top to bottom: the configuration check of lines 19 to 24 throws at load
  time, before \<open>main\<close> is called; an exception nobody catches ends the process with
  status 1. Line 441, \<^verbatim>\<open>main().catch(console.error)\<close>, prints an error thrown by
  \<open>main\<close>, after which the process ends normally.
\<close>

datatype process_end = UncaughtException error | ExitCode nat

definition exit_status :: "process_end \<Rightarrow> nat" where
  "exit_status e = (case e of UncaughtException _ \<Rightarrow> 1 | ExitCode n \<Rightarrow> n)"

definition program :: "world \<Rightarrow> process_end \<times> event list" where
  "program w =
     (if falsy (env_ATLAS_SERVICE_URL w) \<or> falsy (env_RPC_URL w)
      then (UncaughtException (Error ''ATLAS_SERVICE_URL and RPC_URL must be set''), [])
      else (case main w [] of
              (Inl e, evs) \<Rightarrow> (ExitCode 0, evs @ [ConsoleErrorThrown [] e])
            | (Inr (Exited n), evs) \<Rightarrow> (ExitCode n, evs)
            | (Inr (Returned r), evs) \<Rightarrow> (ExitCode 0, evs)))"

section \<open>The setup script\<close>

text \<open>
  \<^verbatim>\<open>setupKeypair\<close> of \<^verbatim>\<open>src/setup-keypair.ts\<close>, lines 14 to 39: the part that
  loads or creates the key file. The result is the key pair the script goes on with (none
  when it returns at line 17), the files afterwards and what it printed on the error
  stream. The airdrop request that follows (lines 41 to 64) touches no file.
\<close>

definition setupKeypair_keypair ::
  "world \<Rightarrow> (error + Keypair option) \<times> (string \<rightharpoonup> string) \<times> event list" where
  "setupKeypair_keypair w =
     (if falsy (env_PUBLIC_DEVNET_RPC w)
      then (Inr None, files w, [ConsoleError ''RPC_URL is not set''])
      else if files w ''keypair.json'' \<noteq> None
      then (case loadKeypair w of
              Inl e \<Rightarrow> (Inl e, files w, [])
            | Inr keypair \<Rightarrow> (Inr (Some keypair), files w, []))
      else (let keypair = Keypair_generate w 0;
                files1 = (files w)
                  (''keypair.json'' \<mapsto>
                     ''['' @ Buffer_toString (Buffer_from (Uint8Array_toString (secretKey keypair)))
                       @ '']'');
                files2 = files1(''public-key.txt'' \<mapsto> publicKey keypair)
            in (Inr (Some keypair), files2, [])))"

section \<open>Observations on a run\<close>

text \<open>The lamports a built transaction moves: those of its transfer instructions.\<close>

definition lamports_of :: "VersionedTransaction \<Rightarrow> int" where
  "lamports_of tx =
     sum_list (map (\<lambda>ci. case data ci of SystemTransfer n \<Rightarrow> n) (compiledInstructions (message tx)))"

text \<open>
  The leg of a scenario that the source marks \<^verbatim>\<open>// Stale blockhash\<close> (lines 232, 272
  and 301), counted from 0.
\<close>

definition stale_leg :: "string \<Rightarrow> nat option" where
  "stale_leg mode =
     (if mode = ''invalid-single'' then Some 0
      else if mode = ''invalid-bundle-first'' then Some 0
      else if mode = ''invalid-bundle-second'' then Some 1
      else None)"

text \<open>The requests posted to the relay, and the events that are network activity.\<close>

definition posted :: "event list \<Rightarrow> (string \<times> jsval) list" where
  "posted evs = concat (map (\<lambda>ev. case ev of Net (Post url body) \<Rightarrow> [(url, body)] | _ \<Rightarrow> []) evs)"

definition is_net :: "event \<Rightarrow> bool" where
  "is_net ev = (case ev of Net r \<Rightarrow> True | _ \<Rightarrow> False)"

definition is_post :: "event \<Rightarrow> bool" where
  "is_post ev = (case ev of Net (Post url body) \<Rightarrow> True | _ \<Rightarrow> False)"

subsection \<open>An example world\<close>

text \<open>
  A world to run the harness in: a funded sender whose key file exists and holds a key of
  64 bytes (the library refuses any other size), a ledger that always answers, and a relay
  that settles the first \<open>settled\<close> transfers of a bundle (10000000 lamports to the first
  recipient, 20000000 to the second, each for a fee of 5000) and returns their signatures.
  Serialisation and base58 are stand-ins: the encoded text of a transaction shows its
  reference point, and every text of 88 characters decodes to 64 bytes.
\<close>

definition example_sender :: Keypair where
  "example_sender = \<lparr>publicKey = ''Sender'', secretKey = replicate 32 7 @ replicate 32 9\<rparr>"


definition example_world :: "string option \<Rightarrow> nat \<Rightarrow> world" where
  "example_world arg settled =
     \<lparr>env_ATLAS_SERVICE_URL = Some ''http://relay.example'',
      env_RPC_URL = Some ''http://ledger.example'',
      env_PUBLIC_DEVNET_RPC = Some ''http://devnet.example'',
      argv2 = arg,
      files =
        [''keypair.json'' \<mapsto> ''['' @ Uint8Array_toString (secretKey example_sender) @ '']''],
      Keypair_fromSecretKey =
        (\<lambda>sk. if length sk = 64 then Inr \<lparr>publicKey = ''Sender'', secretKey = sk\<rparr>
              else Inl (Error ''bad secret key size'')),
      Keypair_generate =
        (\<lambda>i. \<lparr>publicKey = (if i = 0 then ''Recipient1'' else ''Recipient2''), secretKey = []\<rparr>),
      tx_serialize = (\<lambda>tx. map (\<lambda>c. of_nat (of_char c)) (recentBlockhash (message tx))),
      bs58_encode = (\<lambda>bs. map (\<lambda>b. char_of (unat b)) bs),
      bs58_decode = (\<lambda>s. if length s = 88 then Some (replicate 64 0) else None),
      ed25519_sign = (\<lambda>m sk. replicate 64 1),
      rpc_getBalance =
        (\<lambda>evs pubkey.
           let n = (if list_ex is_post evs then settled else 0)
           in Inr (if pubkey = ''Sender''
                   then 1000000000 - (if 1 \<le> n then 10005000 else 0) - (if 2 \<le> n then 20005000 else 0)
                   else if pubkey = ''Recipient1'' then (if 1 \<le> n then 10000000 else 0)
                   else if pubkey = ''Recipient2'' then (if 2 \<le> n then 20000000 else 0)
                   else 0)),
      rpc_getLatestBlockhash = (\<lambda>evs. Inr (''LiveBlockhash'', 100)),
      rpc_confirmTransaction = (\<lambda>evs sig blockhash height. Inr ()),
      axios_post =
        (\<lambda>evs url body.
           Inr (200,
                JObj [(''jsonrpc'', JStr ''2.0''),
                      (''result'',
                         if js_get body ''method'' = Inr (JStr ''sendTransaction'')
                         then JStr (replicate 88 (CHR ''2''))
                         else JArr (take settled
                                [JStr (replicate 88 (CHR ''2'')), JStr (replicate 88 (CHR ''3''))])),
                      (''id'', JNum 1)]))\<rparr>"

text \<open>The same world with a freshly generated key and no key file yet.\<close>

definition fresh_world :: world where
  "fresh_world =
     (example_world None 0)
       \<lparr>files := Map.empty,
        Keypair_generate := (\<lambda>i. example_sender)\<rparr>"

text \<open>What the preparation leaves in that world for a bundle scenario, and what it did.\<close>

definition example_context :: run_context where
  "example_context =
     \<lparr>ctx_keypair = example_sender,
      ctx_numRecipients = 2,
      ctx_recipients =
        [\<lparr>publicKey = ''Recipient1'', secretKey = []\<rparr>,
         \<lparr>publicKey = ''Recipient2'', secretKey = []\<rparr>],
      ctx_senderInitialBalance = 1000000000,
      ctx_recipientInitialBalances = [0, 0],
      ctx_recentBlockhash = ''LiveBlockhash''\<rparr>"

definition example_events :: "event list" where
  "example_events =
     [Net (GetBalance ''Sender''), Net (GetBalance ''Recipient1''),
      Net (GetBalance ''Recipient2''), Net GetLatestBlockhash]"

section \<open>Numbers that are integers\<close>

text \<open>An integer below \<open>2^53\<close> in absolute value is a double, and \<open>BigInt\<close> returns it.\<close>

lemma bit_length_nonneg: "0 \<le> bit_length n"
proof (induction n rule: bit_length.induct)
  case (1 n)
  then show ?case by (subst bit_length.simps) auto
qed

lemma bit_length_pos: "0 < n \<Longrightarrow> 0 < bit_length n"
  using bit_length_nonneg [of "n div 2"] by (subst bit_length.simps) simp

lemma bit_length_bounds:
  "0 < n \<Longrightarrow> 2 ^ nat (bit_length n - 1) \<le> n \<and> n < 2 ^ nat (bit_length n)"
proof (induction n rule: bit_length.induct)
  case (1 n)
  show ?case
  proof (cases "n = 1")
    case True
    have "bit_length 1 = 1"
      by (subst bit_length.simps, simp, subst bit_length.simps, simp)
    with True show ?thesis by simp
  next
    case False
    with 1(2) have h: "0 < n div 2" by auto
    with 1 have ih: "2 ^ nat (bit_length (n div 2) - 1) \<le> n div 2"
      "n div 2 < 2 ^ nat (bit_length (n div 2))" by auto
    have bl: "bit_length n = 1 + bit_length (n div 2)"
      using 1(2) by (subst bit_length.simps) simp
    have p: "0 < bit_length (n div 2)" using h by (rule bit_length_pos)
    have e1: "nat (bit_length n - 1) = Suc (nat (bit_length (n div 2) - 1))"
      using p bl by simp
    have e2: "nat (bit_length n) = Suc (nat (bit_length (n div 2)))"
      using p bl by simp
    from ih show ?thesis unfolding e1 e2 by auto
  qed
qed

lemma round_half_even_of_int: "round_half_even (of_int z) = z"
  by (simp add: round_half_even_def Let_def)

lemma to_double_of_int:
  assumes "\<bar>v\<bar> < 2 ^ 53"
  shows "to_double (of_int v) = of_int v"
proof (cases "v = 0")
  case True
  then show ?thesis by (simp add: to_double_def)
next
  case False
  define a where "a = \<bar>v\<bar>"
  define k where "k = bit_length a - 1"
  define e where "e = k - 52"
  define m where "m = nat (52 - k)"
  have pos: "0 < a" using False by (simp add: a_def)
  have q: "quotient_of \<bar>of_int v :: rat\<bar> = (a, 1)"
    by (simp add: a_def flip: of_int_abs)
  have b1: "bit_length 1 = 1"
    by (subst bit_length.simps, simp, subst bit_length.simps, simp)
  from bit_length_bounds [OF pos] have lo: "2 ^ nat k \<le> a"
    by (simp add: k_def)
  have kn: "0 \<le> k" using bit_length_pos [OF pos] by (simp add: k_def)
  have k52: "k \<le> 52"
  proof (rule ccontr)
    assume "\<not> k \<le> 52"
    then have "53 \<le> nat k" by simp
    then have "(2 :: int) ^ 53 \<le> 2 ^ nat k" by (intro power_increasing) simp_all
    with lo assms show False by (simp add: a_def)
  qed
  have p2: "pow2 k \<le> \<bar>of_int v :: rat\<bar>"
  proof -
    have "(of_int (2 ^ nat k) :: rat) \<le> of_int a" using lo by (simp only: of_int_le_iff)
    then show ?thesis using kn by (simp add: pow2_def a_def)
  qed
  have kk: "bit_length a - bit_length 1 = k" by (simp add: k_def b1)
  have ue: "ulp_exponent (of_int v) = e"
    unfolding ulp_exponent_def q prod.case Let_def kk e_def using p2 by simp
  have pe: "pow2 e = 1 / 2 ^ m"
  proof (cases "k = 52")
    case True
    then show ?thesis by (simp add: pow2_def e_def m_def)
  next
    case False
    with k52 have "e < 0" by (simp add: e_def)
    moreover have "nat (- e) = m" by (simp add: e_def m_def)
    ultimately show ?thesis by (simp add: pow2_def)
  qed
  have dv: "(of_int v :: rat) / pow2 e = of_int (v * 2 ^ m)"
    by (simp add: pe)
  have "to_double (of_int v) = of_int (round_half_even (of_int v / pow2 e)) * pow2 e"
    using False unfolding to_double_def ue Let_def by simp
  also have "\<dots> = of_int (v * 2 ^ m) * pow2 e"
    unfolding dv round_half_even_of_int ..
  also have "\<dots> = of_int v" by (simp add: pe)
  finally show ?thesis .
qed

lemma BigInt_of_int: "BigInt (of_int v) = Inr v"
  by (simp add: BigInt_def)

lemma number_of_balance: "\<bar>v\<bar> < 2 ^ 53 \<Longrightarrow> BigInt (to_double (of_int v)) = Inr v"
  by (simp add: to_double_of_int BigInt_of_int)

lemma number_of_numeral [simp]:
  "(numeral n :: int) < 2 ^ 53 \<Longrightarrow> BigInt (to_double (numeral n)) = Inr (numeral n)"
  using number_of_balance [of "numeral n"] by simp

lemma number_of_zero [simp]: "BigInt (to_double 0) = Inr 0"
  using number_of_balance [of 0] by simp

section \<open>Amounts and the declared plan of each scenario\<close>

text \<open>
  The four amount computations of the first \<^verbatim>\<open>switch\<close>, evaluated: each product of
  doubles rounds to an integer, so \<open>BigInt\<close> accepts it.
\<close>

lemma number_literal_001:
  "number_literal (1 / 100) = 5764607523034235 / 2 ^ 59"
  "number_literal (1 / 100) * LAMPORTS_PER_SOL = 10000000 + 234375 / 2 ^ 50"
  by code_simp+

lemma amount_products_rounded:
  "js_mul LAMPORTS_PER_SOL (number_literal (2 / 100))
     \<noteq> LAMPORTS_PER_SOL * number_literal (2 / 100)"
  "js_mul LAMPORTS_PER_SOL (number_literal (3 / 100))
     \<noteq> LAMPORTS_PER_SOL * number_literal (3 / 100)"
  by code_simp+

lemma amount_001: "BigInt (js_mul (number_literal (1 / 100)) LAMPORTS_PER_SOL) = Inr 10000000"
  by code_simp
lemma amount_001': "BigInt (js_mul LAMPORTS_PER_SOL (number_literal (1 / 100))) = Inr 10000000"
  by code_simp
lemma amount_002: "BigInt (js_mul LAMPORTS_PER_SOL (number_literal (2 / 100))) = Inr 20000000"
  by code_simp
lemma amount_003: "BigInt (js_mul LAMPORTS_PER_SOL (number_literal (3 / 100))) = Inr 30000000"
  by code_simp

lemmas amounts = amount_001 amount_001' amount_002 amount_003
lemmas build_defs = runTest_build_def bindS_def add_assign_at_def recipient_publicKey_def txnFee_def
  createTestTransaction_def SystemProgram_transfer_data_def

lemma build_valid_single:
  "runTest_build ''valid-single'' kp [r0] 1 bh =
     Inr \<lparr>expectedSenderChange = - 10005000, expectedRecipientChanges = [10000000],
          transactions = [transfer_transaction kp (publicKey r0) (SystemTransfer 10000000) bh]\<rparr>"
  unfolding runTest_build_def amounts by (simp add: build_defs Let_def numeral_2_eq_2)

lemma build_invalid_single:
  "runTest_build ''invalid-single'' kp [r0] 1 bh =
     Inr \<lparr>expectedSenderChange = - 30005000, expectedRecipientChanges = [30000000],
          transactions = [transfer_transaction kp (publicKey r0) (SystemTransfer 30000000)
             ''11111111111111111111111111111111'']\<rparr>"
  unfolding runTest_build_def amounts by (simp add: build_defs Let_def numeral_2_eq_2)

lemma build_valid_bundle:
  "runTest_build ''valid-bundle'' kp [r0, r1] 2 bh =
     Inr \<lparr>expectedSenderChange = - 30010000, expectedRecipientChanges = [10000000, 20000000],
          transactions = [transfer_transaction kp (publicKey r0) (SystemTransfer 10000000) bh,
                          transfer_transaction kp (publicKey r1) (SystemTransfer 20000000) bh]\<rparr>"
  unfolding runTest_build_def amounts by (simp add: build_defs Let_def numeral_2_eq_2)

lemma build_invalid_bundle_first:
  "runTest_build ''invalid-bundle-first'' kp [r0, r1] 2 bh =
     Inr \<lparr>expectedSenderChange = - 30010000, expectedRecipientChanges = [10000000, 20000000],
          transactions = [transfer_transaction kp (publicKey r0) (SystemTransfer 10000000) ''11111111111111111111111111111111'',
                          transfer_transaction kp (publicKey r1) (SystemTransfer 20000000) bh]\<rparr>"
  unfolding runTest_build_def amounts by (simp add: build_defs Let_def numeral_2_eq_2)

lemma build_invalid_bundle_second:
  "runTest_build ''invalid-bundle-second'' kp [r0, r1] 2 bh =
     Inr \<lparr>expectedSenderChange = - 30010000, expectedRecipientChanges = [10000000, 20000000],
          transactions = [transfer_transaction kp (publicKey r0) (SystemTransfer 10000000) bh,
                          transfer_transaction kp (publicKey r1) (SystemTransfer 20000000) ''11111111111111111111111111111111'']\<rparr>"
  unfolding runTest_build_def amounts by (simp add: build_defs Let_def numeral_2_eq_2)

lemma bundle_modes:
  "includes_str ''valid-single'' ''bundle'' = False"
  "includes_str ''invalid-single'' ''bundle'' = False"
  "includes_str ''valid-bundle'' ''bundle'' = True"
  "includes_str ''invalid-bundle-first'' ''bundle'' = True"
  "includes_str ''invalid-bundle-second'' ''bundle'' = True"
  by simp_all

section \<open>The preparation\<close>

lemma collect_length: "collect rs = Inr xs \<Longrightarrow> length xs = length rs"
  by (induction rs arbitrary: xs) (auto split: sum.splits)

lemma collect_again: "collect rs = Inr xs \<Longrightarrow> collect (map Inr xs) = Inr xs"
  by (induction rs arbitrary: xs) (auto split: sum.splits)

lemma start_all_checkBalance:
  "start_all (map (\<lambda>r. (checkBalance w (publicKey r), k)) rs) evs = (started, evs') \<Longrightarrow>
     evs' = evs @ map (\<lambda>r. Net (GetBalance (publicKey r))) rs \<and>
     length started = length rs \<and> list_all (\<lambda>c. snd c = k) started"
proof (induction rs arbitrary: evs started evs')
  case Nil
  then show ?case by simp
next
  case (Cons r rs)
  obtain st1 evs1 where tl: "start_all (map (\<lambda>r. (checkBalance w (publicKey r), k)) rs)
        (evs @ [Net (GetBalance (publicKey r))]) = (st1, evs1)"
    by (cases "start_all (map (\<lambda>r. (checkBalance w (publicKey r), k)) rs)
        (evs @ [Net (GetBalance (publicKey r))])")
  from Cons.IH [OF tl] Cons.prems tl show ?case
    by (auto simp: checkBalance_def)
qed

lemma resume_all_returnE:
  "list_all (\<lambda>c. snd c = returnE) started \<Longrightarrow>
     resume_all started evs = (map (\<lambda>c. (True, fst c)) started, evs)"
  by (induction started arbitrary: evs) (auto simp: returnE_def split: sum.splits)

lemma promise_all_checkBalance:
  "promise_all (map (\<lambda>r. (checkBalance w (publicKey r), returnE)) rs) evs = (res, evs') \<Longrightarrow>
     evs' = evs @ map (\<lambda>r. Net (GetBalance (publicKey r))) rs \<and>
     (\<forall>xs. res = Inr xs \<longrightarrow> length xs = length rs)"
proof -
  assume pa: "promise_all (map (\<lambda>r. (checkBalance w (publicKey r), returnE)) rs) evs = (res, evs')"
  obtain started evs1 where st:
    "start_all (map (\<lambda>r. (checkBalance w (publicKey r), returnE)) rs) evs = (started, evs1)"
    by (cases "start_all (map (\<lambda>r. (checkBalance w (publicKey r), returnE)) rs) evs")
  note facts = start_all_checkBalance [OF st]
  from facts have re: "resume_all started evs1 = (map (\<lambda>c. (True, fst c)) started, evs1)"
    by (intro resume_all_returnE) simp
  from pa have res: "res = collect (map fst started)" and evs': "evs' = evs1"
    by (auto simp: promise_all_def st re comp_def split: sum.splits)
  show ?thesis
    using facts collect_length [of "map fst started"] by (auto simp: res evs')
qed

lemma prepare_result:
  assumes "runTest_prepare w mode evs = (Inr ctx, evs')"
  defines "n \<equiv> (if includes_str mode ''bundle'' then 2 else 1 :: nat)"
  shows "\<exists>kp s bs bh h.
           loadKeypair w = Inr kp \<and>
           ctx = \<lparr>ctx_keypair = kp, ctx_numRecipients = n,
                  ctx_recipients = map (Keypair_generate w) [0..<n],
                  ctx_senderInitialBalance = s, ctx_recipientInitialBalances = bs,
                  ctx_recentBlockhash = bh\<rparr> \<and>
           length bs = n \<and>
           evs' = evs @ Net (GetBalance (publicKey kp))
                    # map (\<lambda>r. Net (GetBalance (publicKey r))) (map (Keypair_generate w) [0..<n])
                    @ [Net GetLatestBlockhash] \<and>
           rpc_getLatestBlockhash w (butlast evs') = Inr (bh, h)"
proof -
  from assms(1) obtain kp where kp: "loadKeypair w = Inr kp"
    by (cases "loadKeypair w") (auto simp: runTest_prepare_def bindE_def liftE_def)
  let ?rs = "map (Keypair_generate w) [0..<n]"
  let ?e1 = "evs @ [Net (GetBalance (publicKey kp))]"
  obtain res evs2 where pa: "promise_all (map (\<lambda>r. (checkBalance w (publicKey r), returnE)) ?rs) ?e1 = (res, evs2)"
    by (cases "promise_all (map (\<lambda>r. (checkBalance w (publicKey r), returnE)) ?rs) ?e1")
  note pa' = promise_all_checkBalance [OF pa]
  from assms(1) kp pa pa' show ?thesis
    unfolding n_def
    by (auto simp: runTest_prepare_def bindE_def liftE_def returnE_def checkBalance_def
        getLatestBlockhash_def Let_def butlast_append split: sum.splits prod.splits if_splits)
qed

lemma lamports_of_transfer [simp]:
  "lamports_of (transfer_transaction kp r (SystemTransfer a) bh) = a"
  by (simp add: lamports_of_def transfer_transaction_def new_VersionedTransaction_def Let_def)

lemma blockhash_of_transfer [simp]:
  "recentBlockhash (message (transfer_transaction kp r d bh)) = bh"
  by (simp add: transfer_transaction_def new_VersionedTransaction_def Let_def)

lemma upt_2: "[0..<2] = [0, Suc 0]"
  by (simp add: numeral_2_eq_2)

lemma prepare_facts:
  assumes "runTest_prepare w mode evs = (Inr ctx, evs')"
  shows "ctx_numRecipients ctx = (if includes_str mode ''bundle'' then 2 else 1)"
    and "ctx_recipients ctx = map (Keypair_generate w) [0..<ctx_numRecipients ctx]"
    and "length (ctx_recipientInitialBalances ctx) = ctx_numRecipients ctx"
    and "loadKeypair w = Inr (ctx_keypair ctx)"
    and "evs' = evs @ Net (GetBalance (publicKey (ctx_keypair ctx)))
                  # map (\<lambda>r. Net (GetBalance (publicKey r))) (ctx_recipients ctx)
                  @ [Net GetLatestBlockhash]"
    and "\<exists>h. rpc_getLatestBlockhash w (butlast evs') = Inr (ctx_recentBlockhash ctx, h)"
proof -
  let ?n = "if includes_str mode ''bundle'' then 2 else 1 :: nat"
  from prepare_result [OF assms] obtain kp s bs bh h where
    loaded: "loadKeypair w = Inr kp" and
    ctx: "ctx = \<lparr>ctx_keypair = kp, ctx_numRecipients = ?n,
                 ctx_recipients = map (Keypair_generate w) [0..<?n],
                 ctx_senderInitialBalance = s, ctx_recipientInitialBalances = bs,
                 ctx_recentBlockhash = bh\<rparr>" and
    len: "length bs = ?n" and
    evs: "evs' = evs @ Net (GetBalance (publicKey kp))
                  # map (\<lambda>r. Net (GetBalance (publicKey r))) (map (Keypair_generate w) [0..<?n])
                  @ [Net GetLatestBlockhash]" and
    bh: "rpc_getLatestBlockhash w (butlast evs') = Inr (bh, h)"
    by (elim exE conjE) (rule that)
  show "ctx_numRecipients ctx = ?n" by (simp only: ctx run_context.simps)
  show "ctx_recipients ctx = map (Keypair_generate w) [0..<ctx_numRecipients ctx]"
    by (simp only: ctx run_context.simps)
  show "length (ctx_recipientInitialBalances ctx) = ctx_numRecipients ctx"
    by (simp only: ctx run_context.simps len)
  show "loadKeypair w = Inr (ctx_keypair ctx)"
    by (simp only: ctx run_context.simps loaded)
  show "evs' = evs @ Net (GetBalance (publicKey (ctx_keypair ctx)))
                  # map (\<lambda>r. Net (GetBalance (publicKey r))) (ctx_recipients ctx)
                  @ [Net GetLatestBlockhash]"
    by (simp only: ctx run_context.simps evs)
  show "\<exists>h. rpc_getLatestBlockhash w (butlast evs') = Inr (ctx_recentBlockhash ctx, h)"
    by (intro exI [of _ h]) (simp only: ctx run_context.simps bh)
qed

text \<open>The plan of each scenario, in any run that reaches the first \<^verbatim>\<open>switch\<close>.\<close>

lemma declared_plan_cases:
  assumes "mode \<in> set TestModes" and "runTest_prepare w mode evs = (Inr ctx, evs')"
  obtains
    (valid_single) r0 where "mode = ''valid-single''"
      "declared_plan mode ctx =
         Inr \<lparr>expectedSenderChange = - 10005000, expectedRecipientChanges = [10000000],
              transactions =
                [transfer_transaction (ctx_keypair ctx) r0 (SystemTransfer 10000000) (ctx_recentBlockhash ctx)]\<rparr>"
  | (invalid_single) r0 where "mode = ''invalid-single''"
      "declared_plan mode ctx =
         Inr \<lparr>expectedSenderChange = - 30005000, expectedRecipientChanges = [30000000],
              transactions =
                [transfer_transaction (ctx_keypair ctx) r0 (SystemTransfer 30000000)
                   ''11111111111111111111111111111111'']\<rparr>"
  | (valid_bundle) r0 r1 where "mode = ''valid-bundle''"
      "declared_plan mode ctx =
         Inr \<lparr>expectedSenderChange = - 30010000, expectedRecipientChanges = [10000000, 20000000],
              transactions =
                [transfer_transaction (ctx_keypair ctx) r0 (SystemTransfer 10000000) (ctx_recentBlockhash ctx),
                 transfer_transaction (ctx_keypair ctx) r1 (SystemTransfer 20000000) (ctx_recentBlockhash ctx)]\<rparr>"
  | (invalid_bundle_first) r0 r1 where "mode = ''invalid-bundle-first''"
      "declared_plan mode ctx =
         Inr \<lparr>expectedSenderChange = - 30010000, expectedRecipientChanges = [10000000, 20000000],
              transactions =
                [transfer_transaction (ctx_keypair ctx) r0 (SystemTransfer 10000000)
                   ''11111111111111111111111111111111'',
                 transfer_transaction (ctx_keypair ctx) r1 (SystemTransfer 20000000) (ctx_recentBlockhash ctx)]\<rparr>"
  | (invalid_bundle_second) r0 r1 where "mode = ''invalid-bundle-second''"
      "declared_plan mode ctx =
         Inr \<lparr>expectedSenderChange = - 30010000, expectedRecipientChanges = [10000000, 20000000],
              transactions =
                [transfer_transaction (ctx_keypair ctx) r0 (SystemTransfer 10000000) (ctx_recentBlockhash ctx),
                 transfer_transaction (ctx_keypair ctx) r1 (SystemTransfer 20000000)
                   ''11111111111111111111111111111111'']\<rparr>"
proof -
  note ctx = prepare_facts(1,2) [OF assms(2)]
  from assms(1) have "mode = ''valid-single'' \<or> mode = ''invalid-single''
      \<or> mode = ''valid-bundle'' \<or> mode = ''invalid-bundle-first''
      \<or> mode = ''invalid-bundle-second''"
    by (simp add: TestModes_def)
  then show thesis
  proof (elim disjE)
    assume 1: "mode = ''valid-single''"
    have n: "ctx_numRecipients ctx = 1" using ctx(1) 1 by simp
    have r: "ctx_recipients ctx = [Keypair_generate w 0]" using ctx(2) by (simp add: n)
    have "declared_plan mode ctx =
         Inr \<lparr>expectedSenderChange = - 10005000, expectedRecipientChanges = [10000000],
              transactions =
                [transfer_transaction (ctx_keypair ctx) (publicKey (Keypair_generate w 0)) (SystemTransfer 10000000) (ctx_recentBlockhash ctx)]\<rparr>"
      unfolding declared_plan_def n r 1 by (rule build_valid_single)
    with 1 show ?thesis by (rule valid_single)
  next
    assume 2: "mode = ''invalid-single''"
    have n: "ctx_numRecipients ctx = 1" using ctx(1) 2 by simp
    have r: "ctx_recipients ctx = [Keypair_generate w 0]" using ctx(2) by (simp add: n)
    have "declared_plan mode ctx =
         Inr \<lparr>expectedSenderChange = - 30005000, expectedRecipientChanges = [30000000],
              transactions =
                [transfer_transaction (ctx_keypair ctx) (publicKey (Keypair_generate w 0)) (SystemTransfer 30000000) ''11111111111111111111111111111111'']\<rparr>"
      unfolding declared_plan_def n r 2 by (rule build_invalid_single)
    with 2 show ?thesis by (rule invalid_single)
  next
    assume 3: "mode = ''valid-bundle''"
    have n: "ctx_numRecipients ctx = 2" using ctx(1) 3 by simp
    have r: "ctx_recipients ctx = [Keypair_generate w 0, Keypair_generate w (Suc 0)]"
      using ctx(2) by (simp add: n upt_2)
    have "declared_plan mode ctx =
         Inr \<lparr>expectedSenderChange = - 30010000, expectedRecipientChanges = [10000000, 20000000],
              transactions =
                [transfer_transaction (ctx_keypair ctx) (publicKey (Keypair_generate w 0)) (SystemTransfer 10000000) (ctx_recentBlockhash ctx),
                 transfer_transaction (ctx_keypair ctx) (publicKey (Keypair_generate w (Suc 0))) (SystemTransfer 20000000) (ctx_recentBlockhash ctx)]\<rparr>"
      unfolding declared_plan_def n r 3 by (rule build_valid_bundle)
    with 3 show ?thesis by (rule valid_bundle)
  next
    assume 4: "mode = ''invalid-bundle-first''"
    have n: "ctx_numRecipients ctx = 2" using ctx(1) 4 by simp
    have r: "ctx_recipients ctx = [Keypair_generate w 0, Keypair_generate w (Suc 0)]"
      using ctx(2) by (simp add: n upt_2)
    have "declared_plan mode ctx =
         Inr \<lparr>expectedSenderChange = - 30010000, expectedRecipientChanges = [10000000, 20000000],
              transactions =
                [transfer_transaction (ctx_keypair ctx) (publicKey (Keypair_generate w 0)) (SystemTransfer 10000000) ''11111111111111111111111111111111'',
                 transfer_transaction (ctx_keypair ctx) (publicKey (Keypair_generate w (Suc 0))) (SystemTransfer 20000000) (ctx_recentBlockhash ctx)]\<rparr>"
      unfolding declared_plan_def n r 4 by (rule build_invalid_bundle_first)
    with 4 show ?thesis by (rule invalid_bundle_first)
  next
    assume 5: "mode = ''invalid-bundle-second''"
    have n: "ctx_numRecipients ctx = 2" using ctx(1) 5 by simp
    have r: "ctx_recipients ctx = [Keypair_generate w 0, Keypair_generate w (Suc 0)]"
      using ctx(2) by (simp add: n upt_2)
    have "declared_plan mode ctx =
         Inr \<lparr>expectedSenderChange = - 30010000, expectedRecipientChanges = [10000000, 20000000],
              transactions =
                [transfer_transaction (ctx_keypair ctx) (publicKey (Keypair_generate w 0)) (SystemTransfer 10000000) (ctx_recentBlockhash ctx),
                 transfer_transaction (ctx_keypair ctx) (publicKey (Keypair_generate w (Suc 0))) (SystemTransfer 20000000) ''11111111111111111111111111111111'']\<rparr>"
      unfolding declared_plan_def n r 5 by (rule build_invalid_bundle_second)
    with 5 show ?thesis by (rule invalid_bundle_second)
  qed
qed

section \<open>The key file: writing and reading back\<close>

lemma digit_char_is_digit: "d < 10 \<Longrightarrow> is_digit (digit_char d)"
  by (simp add: is_digit_def digit_char_def)

lemma digit_char_value: "d < 10 \<Longrightarrow> of_char (digit_char d) - 48 = d"
  by (simp add: digit_char_def)

lemma digit_char_zero: "d < 10 \<Longrightarrow> digit_char d = CHR ''0'' \<Longrightarrow> d = 0"
proof -
  assume d: "d < 10" and z: "digit_char d = CHR ''0''"
  then have "(of_char (digit_char d) :: nat) = of_char (CHR ''0'')" by simp
  with d show "d = 0" by (simp add: digit_char_def)
qed

lemma decimal_nonempty: "decimal n \<noteq> []"
  by (subst decimal.simps) simp

lemma decimal_digits: "list_all is_digit (decimal n)"
proof (induction n rule: decimal.induct)
  case (1 n)
  show ?case
  proof (cases "n < 10")
    case True
    then show ?thesis by (subst decimal.simps) (simp add: digit_char_is_digit)
  next
    case False
    with 1 show ?thesis by (subst decimal.simps) (simp add: digit_char_is_digit)
  qed
qed

lemma digits_value_snoc: "digits_value (s @ [c]) = 10 * digits_value s + (of_char c - 48)"
  by (simp add: digits_value_def)

lemma digits_value_decimal: "digits_value (decimal n) = n"
proof (induction n rule: decimal.induct)
  case (1 n)
  show ?case
  proof (cases "n < 10")
    case True
    then show ?thesis
      by (subst decimal.simps) (simp add: digits_value_def digit_char_value)
  next
    case False
    with 1 have "digits_value (decimal (n div 10)) = n div 10" by simp
    with False show ?thesis
      by (subst decimal.simps) (simp add: digits_value_snoc digit_char_value)
  qed
qed

lemma decimal_hd: "0 < n \<Longrightarrow> hd (decimal n) \<noteq> CHR ''0''"
proof (induction n rule: decimal.induct)
  case (1 n)
  show ?case
  proof (cases "n < 10")
    case True
    with 1(2) show ?thesis
      by (subst decimal.simps) (auto dest: digit_char_zero)
  next
    case False
    with 1 have "hd (decimal (n div 10)) \<noteq> CHR ''0''" by simp
    with False show ?thesis
      by (subst decimal.simps) (simp add: decimal_nonempty)
  qed
qed

lemma char_of_48: "char_of (48 :: nat) = CHR ''0''"
proof -
  have "char_of (of_char CHR ''0'' :: nat) = CHR ''0''" by (rule char_of_char)
  then show ?thesis by simp
qed

lemma decimal_zero: "decimal 0 = ''0''"
  by (subst decimal.simps) (simp add: digit_char_def char_of_48)

lemma parse_number_decimal: "parse_number (decimal n) = Some n"
proof (cases "n = 0")
  case True
  then show ?thesis
    by (simp add: decimal_zero parse_number_def is_digit_def digits_value_def)
next
  case False
  then show ?thesis
    by (simp add: parse_number_def decimal_nonempty decimal_digits digits_value_decimal decimal_hd)
qed

lemma decimal_no_comma: "CHR '','' \<notin> set (decimal n)"
proof
  assume "CHR '','' \<in> set (decimal n)"
  with decimal_digits [of n] have "is_digit CHR '',''"
    by (simp add: list_all_iff)
  then show False by (simp add: is_digit_def)
qed

lemma split_commas_nonempty: "split_commas s \<noteq> []"
  by (induction s) (auto split: list.splits)

lemma split_commas_plain: "CHR '','' \<notin> set x \<Longrightarrow> split_commas x = [x]"
  by (induction x) (auto split: list.splits)

lemma split_commas_append:
  "CHR '','' \<notin> set x \<Longrightarrow> split_commas (x @ CHR '','' # s) = x # split_commas s"
  by (induction x) (auto split: list.splits)

lemma split_join:
  "xs \<noteq> [] \<Longrightarrow> list_all (\<lambda>x. CHR '','' \<notin> set x) xs \<Longrightarrow> split_commas (join_commas xs) = xs"
proof (induction xs rule: join_commas.induct)
  case 1
  then show ?case by simp
next
  case (2 x)
  then show ?case by (simp add: split_commas_plain)
next
  case (3 x y ys)
  then show ?case by (simp add: split_commas_append)
qed

lemma join_commas_empty: "join_commas xs = [] \<Longrightarrow> list_all (\<lambda>x. x \<noteq> []) xs \<Longrightarrow> xs = []"
  by (induction xs rule: join_commas.induct) auto

lemma is_digit_not_ws: "is_digit c \<Longrightarrow> \<not> is_ws c"
  by (auto simp: is_digit_def is_ws_def)

lemma trim_plain: "list_all (\<lambda>c. \<not> is_ws c) s \<Longrightarrow> trim s = s"
proof (cases s)
  case Nil
  then show ?thesis by (simp add: trim_def)
next
  case (Cons c cs)
  assume a: "list_all (\<lambda>c. \<not> is_ws c) s"
  with Cons have 1: "dropWhile is_ws s = s" by simp
  from a have "list_all (\<lambda>c. \<not> is_ws c) (rev s)" by (simp add: list_all_iff)
  moreover from Cons have "rev s \<noteq> []" by simp
  ultimately have 2: "dropWhile is_ws (rev s) = rev s"
    by (cases "rev s") simp_all
  show ?thesis by (simp add: trim_def 1 2)
qed

lemma trim_decimal: "trim (decimal n) = decimal n"
  using decimal_digits [of n]
  by (intro trim_plain) (auto simp: list_all_iff dest: is_digit_not_ws)

lemma parse_integer_decimal: "parse_integer (decimal n) = Some (int n)"
proof (cases "decimal n")
  case Nil
  with decimal_nonempty [of n] show ?thesis by simp
next
  case (Cons c cs)
  with decimal_digits [of n] have "is_digit c" by simp
  then have "c \<noteq> CHR ''-''" by (auto simp: is_digit_def)
  with Cons parse_number_decimal [of n] show ?thesis by (simp add: parse_integer_def)
qed

lemma those_parse_decimal:
  "those (map (\<lambda>piece. parse_integer (trim piece)) (map decimal ns)) = Some (map int ns)"
  by (induction ns) (simp_all add: parse_integer_decimal trim_decimal)

lemma join_commas_no_ws:
  "list_all (\<lambda>x. list_all (\<lambda>c. \<not> is_ws c) x) xs \<Longrightarrow> list_all (\<lambda>c. \<not> is_ws c) (join_commas xs)"
  by (induction xs rule: join_commas.induct) (simp_all add: is_ws_def)

lemma JSON_parse_numbers:
  "JSON_parse (''['' @ join_commas (map decimal ns) @ '']'') = Inr (map int ns)"
proof -
  let ?body = "join_commas (map decimal ns)"
  have nws: "list_all (\<lambda>c. \<not> is_ws c) ?body"
    using decimal_digits
    by (intro join_commas_no_ws) (auto simp: list_all_iff dest: is_digit_not_ws)
  then have "list_all (\<lambda>c. \<not> is_ws c) (''['' @ ?body @ '']'')"
    by (simp add: is_ws_def)
  then have t1: "trim (''['' @ ?body @ '']'') = CHR ''['' # (?body @ '']'')"
    by (simp add: trim_plain)
  have t2: "trim ?body = ?body" using nws by (rule trim_plain)
  show ?thesis
  proof (cases "ns = []")
    case True
    have "trim ''[]'' = ''[]''" by (simp add: trim_plain is_ws_def)
    moreover have "trim [] = []" by (simp add: trim_plain)
    ultimately show ?thesis using True by (simp add: JSON_parse_def)
  next
    case False
    have ne: "?body \<noteq> []"
    proof
      assume "?body = []"
      moreover have "list_all (\<lambda>x. x \<noteq> []) (map decimal ns)"
        by (simp add: list_all_iff decimal_nonempty)
      ultimately have "map decimal ns = []" by (rule join_commas_empty)
      with False show False by simp
    qed
    have sp: "split_commas ?body = map decimal ns"
      using False by (intro split_join) (simp_all add: list_all_iff decimal_no_comma)
    show ?thesis
      unfolding JSON_parse_def t1
      using ne by (simp add: butlast_append sp those_parse_decimal t2 del: map_map)
  qed
qed

lemma Buffer_roundtrip: "Buffer_toString (Buffer_from s) = s"
proof -
  have "char_of (unat (of_nat (of_char c :: nat) :: byte)) = c" for c :: char
    by (simp add: unat_of_nat)
  then show ?thesis by (simp add: Buffer_toString_def Buffer_from_def map_idI)
qed

lemma Uint8Array_roundtrip: "Uint8Array_from (map int (map unat bs)) = bs"
  by (simp add: Uint8Array_from_def map_idI)

lemma key_file_text:
  "JSON_parse (''['' @ Buffer_toString (Buffer_from (Uint8Array_toString sk)) @ '']'')
     = Inr (map int (map unat sk))"
  using JSON_parse_numbers [of "map unat sk"]
  by (simp add: Buffer_roundtrip Uint8Array_toString_def comp_def)

section \<open>Requests and usage text\<close>

lemma posted_append: "posted (xs @ ys) = posted xs @ posted ys"
  by (simp add: posted_def)

lemma posted_simps:
  "posted [] = []"
  "posted (Net (Post url body) # evs) = (url, body) # posted evs"
  "posted (ConsoleErrorThrown s e # evs) = posted evs"
  by (simp_all add: posted_def)

lemma includes_str_prefix: "includes_str (t @ b) t"
proof (cases "t @ b")
  case Nil
  then show ?thesis by simp
next
  case (Cons c s)
  have "take (length t) (t @ b) = t" by simp
  with Cons show ?thesis by simp
qed

lemma includes_str_append_left: "includes_str s t \<Longrightarrow> includes_str (a @ s) t"
  by (induction a) auto

lemma includes_str_append_right: "includes_str s t \<Longrightarrow> includes_str (s @ b) t"
proof (induction s)
  case Nil
  then show ?case by (simp add: includes_str_prefix [of "[]", simplified])
next
  case (Cons c s)
  then show ?case by (cases "length t \<le> length (c # s)") (auto simp: take_Cons')
qed

lemma includes_str_concat:
  "x \<in> set xs \<Longrightarrow> includes_str (f x) t \<Longrightarrow> includes_str (concat (map f xs)) t"
  by (induction xs) (auto intro: includes_str_append_left includes_str_append_right)

lemma includes_usage: "m @ b \<in> set usage_lines \<Longrightarrow> includes_str usage m"
  unfolding usage_def
  by (erule includes_str_concat) (simp add: includes_str_prefix)

lemma usage_names: "list_all (includes_str usage) TestModes"
proof -
  have "includes_str usage ''valid-single''"
    by (rule includes_usage [where b = "''  - Test sending a single valid transaction''"])
       (simp add: usage_lines_def)
  moreover have "includes_str usage ''invalid-single''"
    by (rule includes_usage [where b = "'' - Test sending a single stale transaction''"])
       (simp add: usage_lines_def)
  moreover have "includes_str usage ''valid-bundle''"
    by (rule includes_usage [where b = "''   - Test sending a bundle of valid transactions''"])
       (simp add: usage_lines_def)
  moreover have "includes_str usage ''invalid-bundle-first''"
    by (rule includes_usage
          [where b = "'' - Test sending a bundle of stale transactions with first tx invalid''"])
       (simp add: usage_lines_def)
  moreover have "includes_str usage ''invalid-bundle-second''"
    by (rule includes_usage
          [where b = "'' - Test sending a bundle of stale transactions with second tx invalid''"])
       (simp add: usage_lines_def)
  ultimately show ?thesis by (simp add: TestModes_def)
qed

lemma TestModes_nonempty_names: "m \<in> set TestModes \<Longrightarrow> m \<noteq> []"
  by (auto simp: TestModes_def)

section \<open>Runs in the example world\<close>

lemma example_sender_key [simp]: "publicKey example_sender = ''Sender''"
  by (simp add: example_sender_def)

lemma example_load: "loadKeypair (example_world arg k) = Inr example_sender"
proof -
  have len: "length (secretKey example_sender) = 64" by (simp add: example_sender_def)
  have "JSON_parse (''['' @ Uint8Array_toString (secretKey example_sender) @ '']'')
          = Inr (map int (map unat (secretKey example_sender)))"
    using JSON_parse_numbers [of "map unat (secretKey example_sender)"]
    by (simp add: Uint8Array_toString_def comp_def)
  moreover have "files (example_world arg k) ''keypair.json''
          = Some (''['' @ Uint8Array_toString (secretKey example_sender) @ '']'')"
    by (simp add: example_world_def)
  moreover have "Keypair_fromSecretKey (example_world arg k) (secretKey example_sender)
          = Inr example_sender"
    using len by (simp add: example_world_def example_sender_def)
  ultimately show ?thesis
    using Uint8Array_roundtrip [of "secretKey example_sender"]
    by (simp add: loadKeypair_def readFileSync_def bindS_def)
qed

lemma example_prepare_bundle:
  assumes "includes_str mode ''bundle''"
  shows "runTest_prepare (example_world arg k) mode [] =
     (Inr \<lparr>ctx_keypair = example_sender,
           ctx_numRecipients = 2,
           ctx_recipients =
             [\<lparr>publicKey = ''Recipient1'', secretKey = []\<rparr>,
              \<lparr>publicKey = ''Recipient2'', secretKey = []\<rparr>],
           ctx_senderInitialBalance = 1000000000,
           ctx_recipientInitialBalances = [0, 0],
           ctx_recentBlockhash = ''LiveBlockhash''\<rparr>,
      [Net (GetBalance ''Sender''), Net (GetBalance ''Recipient1''),
       Net (GetBalance ''Recipient2''), Net GetLatestBlockhash])"
  unfolding runTest_prepare_def example_load
  by (simp add: assms bindE_def liftE_def returnE_def checkBalance_def getLatestBlockhash_def
      upt_2 example_world_def is_post_def Let_def promise_all_def bindS_def)

lemma example_prepared:
  "includes_str mode ''bundle'' \<Longrightarrow>
     runTest_prepare (example_world arg k) mode [] = (Inr example_context, example_events)"
  unfolding example_context_def example_events_def by (rule example_prepare_bundle)

section \<open>The claims\<close>

text \<open>
  C1. For \<^verbatim>\<open>invalid-bundle-second\<close> the claim expects the declared changes of one
  settled leg: sender \<open>-(10000000 + 5000)\<close>, first recipient \<open>+10000000\<close>, second
  recipient \<open>0\<close>. The source declares the changes of two settled legs (lines 287 to 289),
  although line 353 itself expects one accepted signature. In the example world, where the
  relay settles the first leg only, the run therefore reports a mismatch for the sender and
  for the second recipient: the sender's actual change is \<open>-10005000\<close> against a declared
  \<open>-30010000\<close>, the second recipient's is \<open>0\<close> against a declared \<open>20000000\<close>.
\<close>

theorem run_invalid_bundle_second:
  "fst (runTest (example_world (Some ''invalid-bundle-second'') 1) ''invalid-bundle-second'' []) =
     Inr \<lparr>actualSenderChange = - 10005000, declaredSenderChange = - 30010000,
          senderMatched = False,
          recipientRows = [(10000000, 10000000, True), (0, 20000000, False)]\<rparr>"
  unfolding runTest_def
  apply (simp add: bindE_def example_prepare_bundle declared_plan_def build_invalid_bundle_second liftE_def)
  apply (simp add: sign_tx_def transfer_transaction_def new_VersionedTransaction_def bindS_def Let_def)
  apply (simp add: runTest_submit_def sendTransactionBundle_def catchE_def axios_request_def bindE_def returnE_def liftE_def
     js_array_def confirmTransaction_def getLatestBlockhash_def Let_def example_world_def
     promise_all_def await_def throwE_def)
  apply (simp add: runTest_verify_def checkBalance_def emit_def is_post_def Let_def upt_2 bindE_def returnE_def example_world_def
     promise_all_def bindS_def)
  done

text \<open>
  C2. For the scenarios whose expected settled count is zero the claim expects declared
  changes of zero. The source declares the changes of every built leg all the same:
  for \<^verbatim>\<open>invalid-bundle-first\<close> (lines 264 to 266, while line 342 expects zero accepted
  signatures) a run in the example world where nothing settles reports three mismatches
  against declared changes of \<open>-30010000\<close>, \<open>10000000\<close> and \<open>20000000\<close>; for
  \<^verbatim>\<open>invalid-single\<close> (lines 225 and 226) the declared changes are \<open>-30005000\<close> and
  \<open>30000000\<close>.
\<close>

theorem run_invalid_bundle_first:
  "fst (runTest (example_world (Some ''invalid-bundle-first'') 0) ''invalid-bundle-first'' []) =
     Inr \<lparr>actualSenderChange = 0, declaredSenderChange = - 30010000,
          senderMatched = False,
          recipientRows = [(0, 10000000, False), (0, 20000000, False)]\<rparr>
   \<and> runTest_build ''invalid-single'' kp [r0] 1 bh =
     Inr \<lparr>expectedSenderChange = - 30005000, expectedRecipientChanges = [30000000],
          transactions =
            [transfer_transaction kp (publicKey r0) (SystemTransfer 30000000)
               ''11111111111111111111111111111111'']\<rparr>"
proof
  show "fst (runTest (example_world (Some ''invalid-bundle-first'') 0) ''invalid-bundle-first'' []) =
     Inr \<lparr>actualSenderChange = 0, declaredSenderChange = - 30010000,
          senderMatched = False,
          recipientRows = [(0, 10000000, False), (0, 20000000, False)]\<rparr>"
    unfolding runTest_def
    apply (simp add: bindE_def example_prepare_bundle declared_plan_def build_invalid_bundle_first liftE_def)
    apply (simp add: sign_tx_def transfer_transaction_def new_VersionedTransaction_def bindS_def Let_def)
    apply (simp add: runTest_submit_def sendTransactionBundle_def catchE_def axios_request_def bindE_def returnE_def liftE_def
       Let_def example_world_def)
    apply (simp add: runTest_verify_def checkBalance_def emit_def is_post_def Let_def upt_2 bindE_def returnE_def example_world_def
     promise_all_def bindS_def)
    done
  show "runTest_build ''invalid-single'' kp [r0] 1 bh =
     Inr \<lparr>expectedSenderChange = - 30005000, expectedRecipientChanges = [30000000],
          transactions =
            [transfer_transaction kp (publicKey r0) (SystemTransfer 30000000)
               ''11111111111111111111111111111111'']\<rparr>"
    by (rule build_invalid_single)
qed

text \<open>
  C3, as stated, fails: the amounts are computed in floating point, and the computation
  is not exact. Line 209 is \<^verbatim>\<open>BigInt(0.01 * LAMPORTS_PER_SOL)\<close>: the double that the
  literal \<open>0.01\<close> denotes is not \<open>1/100\<close>, and the product of that double with
  \<open>1000000000\<close> is not a double, so the multiplication rounds (to \<open>10000000\<close>).
\<close>

theorem amount_product_is_rounded:
  "number_literal (1 / 100) \<noteq> 1 / 100
   \<and> js_mul (number_literal (1 / 100)) LAMPORTS_PER_SOL
       \<noteq> number_literal (1 / 100) * LAMPORTS_PER_SOL"
  by code_simp

text \<open>
  C3, amended. In every scenario, in any run that reaches the first \<^verbatim>\<open>switch\<close>, the
  amount computation does not fail and every amount passed to the transaction builder is a
  non-negative integer: 10000000 for \<^verbatim>\<open>valid-single\<close>, 30000000 for
  \<^verbatim>\<open>invalid-single\<close>, 10000000 and 20000000 for the three bundle scenarios. Each is the
  \<open>BigInt\<close> of a double-precision product that rounds to exactly that integer.
\<close>

theorem amounts_are_integers:
  assumes "mode \<in> set TestModes" and "runTest_prepare w mode evs = (Inr ctx, evs')"
  shows "\<exists>p. declared_plan mode ctx = Inr p
           \<and> list_all (\<lambda>tx. 0 \<le> lamports_of tx) (transactions p)
           \<and> map lamports_of (transactions p)
               = (if mode = ''valid-single'' then [10000000]
                  else if mode = ''invalid-single'' then [30000000]
                  else [10000000, 20000000])"
  using assms by (cases rule: declared_plan_cases) simp_all

theorem amounts_are_integers_witness:
  "''valid-bundle'' \<in> set TestModes
   \<and> runTest_prepare (example_world None 0) ''valid-bundle'' []
       = (Inr example_context, example_events)
   \<and> (\<exists>p. declared_plan ''valid-bundle'' example_context = Inr p
         \<and> list_all (\<lambda>tx. 0 \<le> lamports_of tx) (transactions p)
         \<and> map lamports_of (transactions p)
             = (if ''valid-bundle'' = ''valid-single'' then [10000000]
                else if ''valid-bundle'' = ''invalid-single'' then [30000000]
                else [10000000, 20000000]))"
proof -
  have m: "''valid-bundle'' \<in> set TestModes" by (simp add: TestModes_def)
  have pr: "runTest_prepare (example_world None 0) ''valid-bundle'' []
       = (Inr example_context, example_events)"
    by (rule example_prepared) simp
  show ?thesis
    by (intro conjI m pr amounts_are_integers [OF m pr])
qed

text \<open>
  C4. When the setup script generates a key pair (the devnet endpoint is configured and no
  key file exists), the text it writes to \<^verbatim>\<open>keypair.json\<close> parses as JSON to numbers
  that \<^verbatim>\<open>Uint8Array.from\<close> turns back into exactly the generated secret key, so that
  \<open>loadKeypair\<close>, in any harness world \<open>h\<close> with those files, hands exactly that secret
  key to \<^verbatim>\<open>Keypair.fromSecretKey\<close>.
\<close>

theorem key_file_round_trip:
  assumes "\<not> falsy (env_PUBLIC_DEVNET_RPC w)" and "files w ''keypair.json'' = None"
  shows "\<exists>files' out text.
           setupKeypair_keypair w = (Inr (Some (Keypair_generate w 0)), files', out)
           \<and> files' ''keypair.json'' = Some text
           \<and> bindS (JSON_parse text) (\<lambda>keypairData. Inr (Uint8Array_from keypairData))
               = Inr (secretKey (Keypair_generate w 0))
           \<and> loadKeypair (h\<lparr>files := files'\<rparr>)
               = Keypair_fromSecretKey h (secretKey (Keypair_generate w 0))"
  using assms key_file_text [of "secretKey (Keypair_generate w 0)"]
    Uint8Array_roundtrip [of "secretKey (Keypair_generate w 0)"]
  by (simp add: setupKeypair_keypair_def Let_def loadKeypair_def readFileSync_def bindS_def)

theorem key_file_round_trip_witness:
  "\<not> falsy (env_PUBLIC_DEVNET_RPC fresh_world)
   \<and> files fresh_world ''keypair.json'' = None
   \<and> (\<exists>files' out text.
         setupKeypair_keypair fresh_world = (Inr (Some (Keypair_generate fresh_world 0)), files', out)
         \<and> files' ''keypair.json'' = Some text
         \<and> bindS (JSON_parse text) (\<lambda>keypairData. Inr (Uint8Array_from keypairData))
             = Inr (secretKey (Keypair_generate fresh_world 0))
         \<and> loadKeypair ((example_world None 0)\<lparr>files := files'\<rparr>)
             = Inr example_sender)"
proof -
  have h1: "\<not> falsy (env_PUBLIC_DEVNET_RPC fresh_world)"
    by (simp add: fresh_world_def example_world_def falsy_def)
  have h2: "files fresh_world ''keypair.json'' = None"
    by (simp add: fresh_world_def example_world_def)
  have k: "Keypair_fromSecretKey (example_world None 0) (secretKey (Keypair_generate fresh_world 0))
             = Inr example_sender"
    by (simp add: fresh_world_def example_world_def) (simp add: example_sender_def)
  from key_file_round_trip [OF h1 h2, of "example_world None 0"] obtain files' out contents where
    a: "setupKeypair_keypair fresh_world = (Inr (Some (Keypair_generate fresh_world 0)), files', out)"
    and b: "files' ''keypair.json'' = Some contents"
    and c: "bindS (JSON_parse contents) (\<lambda>keypairData. Inr (Uint8Array_from keypairData))
             = Inr (secretKey (Keypair_generate fresh_world 0))"
    and d: "loadKeypair ((example_world None 0)\<lparr>files := files'\<rparr>)
             = Keypair_fromSecretKey (example_world None 0) (secretKey (Keypair_generate fresh_world 0))"
    by (elim exE conjE) (rule that)
  from d have d': "loadKeypair ((example_world None 0)\<lparr>files := files'\<rparr>)
             = Inr example_sender"
    by (simp only: k)
  show ?thesis
    by (intro conjI exI [of _ files'] exI [of _ out] exI [of _ contents]) (rule h1 h2 a b c d')+
qed

text \<open>
  C5. When the argument is missing or is a string outside the five scenario names,
  \<open>main\<close> prints the usage text and exits with status 1, and does nothing else; the
  process as a whole then ends with status 1 without any network activity (whatever the
  configuration). The usage text contains each of the five names. For each of the five
  names \<open>main\<close> runs the scenario.
\<close>

theorem main_validates_scenario_name:
  "(argv2 w = None \<or> (\<exists>s. argv2 w = Some s \<and> s \<notin> set TestModes) \<longrightarrow>
      main w evs = (Inr (Exited 1), evs @ [ConsoleError usage])
      \<and> exit_status (fst (program w)) = 1
      \<and> filter is_net (snd (program w)) = [])
   \<and> list_all (includes_str usage) TestModes
   \<and> (\<forall>m. argv2 w = Some m \<and> m \<in> set TestModes \<longrightarrow>
        main w evs = bindE (runTest w m) (\<lambda>r. returnE (Returned r)) evs)"
proof (intro conjI impI allI)
  assume bad: "argv2 w = None \<or> (\<exists>s. argv2 w = Some s \<and> s \<notin> set TestModes)"
  then have ni: "\<not> array_includes TestModes (argv2 w)"
    by (auto simp: array_includes_def)
  then show m: "main w evs = (Inr (Exited 1), evs @ [ConsoleError usage])" for evs
    by (simp add: main_def Let_def bindE_def emit_def returnE_def)
  show "exit_status (fst (program w)) = 1"
    by (simp add: program_def exit_status_def m)
  show "filter is_net (snd (program w)) = []"
    by (simp add: program_def m is_net_def)
next
  show "list_all (includes_str usage) TestModes" by (rule usage_names)
next
  fix m
  assume ok: "argv2 w = Some m \<and> m \<in> set TestModes"
  then have "m \<noteq> []" by (simp add: TestModes_nonempty_names)
  with ok show "main w evs = bindE (runTest w m) (\<lambda>r. returnE (Returned r)) evs"
    by (simp add: main_def Let_def falsy_def array_includes_def)
qed

theorem main_validates_scenario_name_witness:
  "argv2 (example_world None 0) = None
   \<and> main (example_world None 0) [] = (Inr (Exited 1), [ConsoleError usage])
   \<and> argv2 (example_world (Some ''invalid-bundle'') 0) = Some ''invalid-bundle''
   \<and> ''invalid-bundle'' \<notin> set TestModes
   \<and> main (example_world (Some ''invalid-bundle'') 0) [] = (Inr (Exited 1), [ConsoleError usage])
   \<and> exit_status (fst (program (example_world (Some ''invalid-bundle'') 0))) = 1
   \<and> filter is_net (snd (program (example_world (Some ''invalid-bundle'') 0))) = []
   \<and> argv2 (example_world (Some ''valid-bundle'') 2) = Some ''valid-bundle''
   \<and> ''valid-bundle'' \<in> set TestModes
   \<and> main (example_world (Some ''valid-bundle'') 2) []
       = bindE (runTest (example_world (Some ''valid-bundle'') 2) ''valid-bundle'')
           (\<lambda>r. returnE (Returned r)) []"
proof -
  have a1: "argv2 (example_world None 0) = None" by (simp add: example_world_def)
  have a2: "argv2 (example_world (Some ''invalid-bundle'') 0) = Some ''invalid-bundle''"
    by (simp add: example_world_def)
  have n2: "''invalid-bundle'' \<notin> set TestModes" by (simp add: TestModes_def)
  have a3: "argv2 (example_world (Some ''valid-bundle'') 2) = Some ''valid-bundle''"
    by (simp add: example_world_def)
  have m3: "''valid-bundle'' \<in> set TestModes" by (simp add: TestModes_def)
  note t1 = main_validates_scenario_name [of "example_world None 0" "[]"]
  note t2 = main_validates_scenario_name [of "example_world (Some ''invalid-bundle'') 0" "[]"]
  note t3 = main_validates_scenario_name [of "example_world (Some ''valid-bundle'') 2" "[]"]
  have b1: "argv2 (example_world None 0) = None
      \<or> (\<exists>s. argv2 (example_world None 0) = Some s \<and> s \<notin> set TestModes)"
    using a1 by (rule disjI1)
  have b2: "argv2 (example_world (Some ''invalid-bundle'') 0) = None
      \<or> (\<exists>s. argv2 (example_world (Some ''invalid-bundle'') 0) = Some s \<and> s \<notin> set TestModes)"
    using a2 n2 by (intro disjI2 exI [of _ "''invalid-bundle''"] conjI)
  from t1 [THEN conjunct1, rule_format, OF b1]
  have c1: "main (example_world None 0) [] = (Inr (Exited 1), [ConsoleError usage])"
    by simp
  from t2 [THEN conjunct1, rule_format, OF b2]
  have c2: "main (example_world (Some ''invalid-bundle'') 0) [] = (Inr (Exited 1), [ConsoleError usage])"
    "exit_status (fst (program (example_world (Some ''invalid-bundle'') 0))) = 1"
    "filter is_net (snd (program (example_world (Some ''invalid-bundle'') 0))) = []"
    by simp_all
  from t3 [THEN conjunct2, THEN conjunct2, rule_format, of "''valid-bundle''"] a3 m3
  have c3: "main (example_world (Some ''valid-bundle'') 2) []
       = bindE (runTest (example_world (Some ''valid-bundle'') 2) ''valid-bundle'')
           (\<lambda>r. returnE (Returned r)) []"
    by (simp only: simp_thms)
  show ?thesis
    by (intro conjI a1 c1 a2 n2 c2 a3 m3 c3)
qed

text \<open>
  C6. If the relay URL or the ledger URL is absent from the environment, the module throws
  the configuration error at load time: the process ends with status 1 and has done
  nothing at all (no request, no file written, nothing built, signed or submitted).
\<close>

theorem missing_endpoint_is_fatal:
  "env_ATLAS_SERVICE_URL w = None \<or> env_RPC_URL w = None \<Longrightarrow>
     program w = (UncaughtException (Error ''ATLAS_SERVICE_URL and RPC_URL must be set''), [])
     \<and> exit_status (fst (program w)) = 1"
  by (auto simp: program_def falsy_def exit_status_def)

theorem missing_endpoint_is_fatal_witness:
  "env_RPC_URL ((example_world (Some ''valid-single'') 0)\<lparr>env_RPC_URL := None\<rparr>) = None
   \<and> program ((example_world (Some ''valid-single'') 0)\<lparr>env_RPC_URL := None\<rparr>)
       = (UncaughtException (Error ''ATLAS_SERVICE_URL and RPC_URL must be set''), [])
   \<and> exit_status (fst (program ((example_world (Some ''valid-single'') 0)\<lparr>env_RPC_URL := None\<rparr>))) = 1"
proof -
  have h: "env_RPC_URL ((example_world (Some ''valid-single'') 0)\<lparr>env_RPC_URL := None\<rparr>) = None"
    by simp
  note t = missing_endpoint_is_fatal [OF disjI2, OF h]
  show ?thesis
    by (intro conjI h t [THEN conjunct1] t [THEN conjunct2])
qed




text \<open>
  C8. \<open>sendTransaction\<close> and \<open>sendTransactionBundle\<close> each post exactly one request, to
  the relay URL, with \<^verbatim>\<open>jsonrpc\<close> \<open>2.0\<close>, \<^verbatim>\<open>id\<close> 1, the method name of the operation, and
  as \<^verbatim>\<open>params\<close> the base58 text of the serialised transaction (for a bundle, the list
  of them) followed by \<^verbatim>\<open>{ skipPreflight: true, encoding: "base58" }\<close>.
\<close>

theorem relay_requests:
  "(\<exists>body. posted (snd (sendTransaction w tx evs)) = posted evs @ [(service_url w, body)]
      \<and> js_get body ''jsonrpc'' = Inr (JStr ''2.0'')
      \<and> js_get body ''id'' = Inr (JNum 1)
      \<and> js_get body ''method'' = Inr (JStr ''sendTransaction'')
      \<and> js_get body ''params'' =
          Inr (JArr [JStr (bs58_encode w (tx_serialize w tx)),
                     JObj [(''skipPreflight'', JBool True), (''encoding'', JStr ''base58'')]]))
   \<and> (\<exists>body. posted (snd (sendTransactionBundle w txs evs)) = posted evs @ [(service_url w, body)]
      \<and> js_get body ''jsonrpc'' = Inr (JStr ''2.0'')
      \<and> js_get body ''id'' = Inr (JNum 1)
      \<and> js_get body ''method'' = Inr (JStr ''sendTransactionBundle'')
      \<and> js_get body ''params'' =
          Inr (JArr [JArr (map (\<lambda>tx. JStr (bs58_encode w (tx_serialize w tx))) txs),
                     JObj [(''skipPreflight'', JBool True), (''encoding'', JStr ''base58'')]]))"
proof (intro conjI)
  show "\<exists>body. posted (snd (sendTransaction w tx evs)) = posted evs @ [(service_url w, body)]
      \<and> js_get body ''jsonrpc'' = Inr (JStr ''2.0'')
      \<and> js_get body ''id'' = Inr (JNum 1)
      \<and> js_get body ''method'' = Inr (JStr ''sendTransaction'')
      \<and> js_get body ''params'' =
          Inr (JArr [JStr (bs58_encode w (tx_serialize w tx)),
                     JObj [(''skipPreflight'', JBool True), (''encoding'', JStr ''base58'')]])"
    by (cases "axios_post w evs (service_url w) (JObj
                    [(''jsonrpc'', JStr ''2.0''),
                     (''id'', JNum 1),
                     (''method'', JStr ''sendTransaction''),
                     (''params'',
                        JArr
                          [JStr (bs58_encode w (tx_serialize w tx)),
                           JObj [(''skipPreflight'', JBool True), (''encoding'', JStr ''base58'')]])])")
       (auto simp: sendTransaction_def catchE_def bindE_def axios_request_def returnE_def
          emit_def throwE_def posted_append posted_simps Let_def)
  show "\<exists>body. posted (snd (sendTransactionBundle w txs evs)) = posted evs @ [(service_url w, body)]
      \<and> js_get body ''jsonrpc'' = Inr (JStr ''2.0'')
      \<and> js_get body ''id'' = Inr (JNum 1)
      \<and> js_get body ''method'' = Inr (JStr ''sendTransactionBundle'')
      \<and> js_get body ''params'' =
          Inr (JArr [JArr (map (\<lambda>tx. JStr (bs58_encode w (tx_serialize w tx))) txs),
                     JObj [(''skipPreflight'', JBool True), (''encoding'', JStr ''base58'')]])"
    by (cases "axios_post w evs (service_url w) (JObj
                    [(''jsonrpc'', JStr ''2.0''),
                     (''id'', JNum 1),
                     (''method'', JStr ''sendTransactionBundle''),
                     (''params'',
                        JArr
                          [JArr (map JStr (map (\<lambda>tx. bs58_encode w (tx_serialize w tx)) txs)),
                           JObj [(''skipPreflight'', JBool True), (''encoding'', JStr ''base58'')]])])")
       (auto simp: sendTransactionBundle_def catchE_def bindE_def axios_request_def returnE_def
          emit_def throwE_def posted_append posted_simps Let_def comp_def)
qed

text \<open>
  C9. In every scenario, in any run that completes the preparation, one transaction is built
  for a single scenario and two for a bundle scenario; the leg marked stale (the only leg of
  \<^verbatim>\<open>invalid-single\<close>, the first of \<^verbatim>\<open>invalid-bundle-first\<close>, the second of
  \<^verbatim>\<open>invalid-bundle-second\<close>) is one of them and carries the string of 32 characters
  \<open>1\<close>, and every other leg carries the one reference point the preparation fetched: the
  preparation asks for the latest reference point exactly once, as its last step before the
  transactions are built, and the answer to that request is what the valid legs carry.
\<close>

theorem reference_points:
  assumes "mode \<in> set TestModes" and "runTest_prepare w mode [] = (Inr ctx, evs)"
  shows "\<exists>p height. declared_plan mode ctx = Inr p
           \<and> length (transactions p) = (if includes_str mode ''bundle'' then 2 else 1)
           \<and> (case stale_leg mode of None \<Rightarrow> True | Some i \<Rightarrow> i < length (transactions p))
           \<and> map (\<lambda>tx. recentBlockhash (message tx)) (transactions p)
               = map (\<lambda>i. if stale_leg mode = Some i then replicate 32 (CHR ''1'')
                            else ctx_recentBlockhash ctx)
                   [0..<length (transactions p)]
           \<and> map (\<lambda>tx. recentBlockhash (message tx)) (transactions p)
               = (if mode = ''valid-single'' then [ctx_recentBlockhash ctx]
                  else if mode = ''invalid-single'' then [''11111111111111111111111111111111'']
                  else if mode = ''valid-bundle''
                  then [ctx_recentBlockhash ctx, ctx_recentBlockhash ctx]
                  else if mode = ''invalid-bundle-first''
                  then [''11111111111111111111111111111111'', ctx_recentBlockhash ctx]
                  else [ctx_recentBlockhash ctx, ''11111111111111111111111111111111''])
           \<and> length (filter (\<lambda>e. e = Net GetLatestBlockhash) evs) = 1
           \<and> last evs = Net GetLatestBlockhash
           \<and> rpc_getLatestBlockhash w (butlast evs) = Inr (ctx_recentBlockhash ctx, height)"
proof -
  have r32: "replicate 32 (CHR ''1'') = ''11111111111111111111111111111111''"
    by (simp add: eval_nat_numeral)
  from prepare_facts(5,6) [OF assms(2)] obtain height where
    ev: "length (filter (\<lambda>e. e = Net GetLatestBlockhash) evs) = 1"
        "last evs = Net GetLatestBlockhash"
        "rpc_getLatestBlockhash w (butlast evs) = Inr (ctx_recentBlockhash ctx, height)"
    by (auto simp: comp_def)
  from assms show ?thesis
    by (cases rule: declared_plan_cases) (use ev in \<open>simp_all add: stale_leg_def r32 upt_2\<close>)
qed

theorem reference_points_witness:
  "''invalid-bundle-second'' \<in> set TestModes
   \<and> runTest_prepare (example_world None 0) ''invalid-bundle-second'' []
       = (Inr example_context, example_events)
   \<and> (\<exists>p height. declared_plan ''invalid-bundle-second'' example_context = Inr p
           \<and> length (transactions p) = (if includes_str ''invalid-bundle-second'' ''bundle'' then 2 else 1)
           \<and> (case stale_leg ''invalid-bundle-second'' of None \<Rightarrow> True | Some i \<Rightarrow> i < length (transactions p))
           \<and> map (\<lambda>tx. recentBlockhash (message tx)) (transactions p)
               = map (\<lambda>i. if stale_leg ''invalid-bundle-second'' = Some i then replicate 32 (CHR ''1'')
                            else ctx_recentBlockhash example_context)
                   [0..<length (transactions p)]
           \<and> map (\<lambda>tx. recentBlockhash (message tx)) (transactions p)
               = (if ''invalid-bundle-second'' = ''valid-single'' then [ctx_recentBlockhash example_context]
                  else if ''invalid-bundle-second'' = ''invalid-single'' then [''11111111111111111111111111111111'']
                  else if ''invalid-bundle-second'' = ''valid-bundle''
                  then [ctx_recentBlockhash example_context, ctx_recentBlockhash example_context]
                  else if ''invalid-bundle-second'' = ''invalid-bundle-first''
                  then [''11111111111111111111111111111111'', ctx_recentBlockhash example_context]
                  else [ctx_recentBlockhash example_context, ''11111111111111111111111111111111''])
           \<and> length (filter (\<lambda>e. e = Net GetLatestBlockhash) example_events) = 1
           \<and> last example_events = Net GetLatestBlockhash
           \<and> rpc_getLatestBlockhash (example_world None 0) (butlast example_events) = Inr (ctx_recentBlockhash example_context, height))"
proof -
  have m: "''invalid-bundle-second'' \<in> set TestModes" by (simp add: TestModes_def)
  have pr: "runTest_prepare (example_world None 0) ''invalid-bundle-second'' []
       = (Inr example_context, example_events)"
    by (rule example_prepared) simp
  show ?thesis
    by (intro conjI m pr reference_points [OF m pr])
qed

text \<open>
  C10. In every scenario, in any run that reaches the first \<^verbatim>\<open>switch\<close>, one transaction
  is built for a single scenario and two for a bundle scenario, and the declared change of
  the sender is minus the sum, over the transactions built, of the amount plus the fee of
  5000: \<open>-(10000000 + 5000)\<close> for \<^verbatim>\<open>valid-single\<close>, \<open>-(30000000 + 5000)\<close> for
  \<^verbatim>\<open>invalid-single\<close>, and \<open>-(10000000 + 5000 + 20000000 + 5000)\<close> for each of the
  three bundle scenarios, whether or not a leg is marked stale.
\<close>

theorem fee_charged_per_built_transaction:
  assumes "mode \<in> set TestModes" and "runTest_prepare w mode evs = (Inr ctx, evs')"
  shows "\<exists>p. declared_plan mode ctx = Inr p
           \<and> length (transactions p) = (if includes_str mode ''bundle'' then 2 else 1)
           \<and> map lamports_of (transactions p)
               = (if mode = ''valid-single'' then [10000000]
                  else if mode = ''invalid-single'' then [30000000]
                  else [10000000, 20000000])
           \<and> expectedSenderChange p = - (\<Sum>tx\<leftarrow>transactions p. lamports_of tx + 5000)
           \<and> expectedSenderChange p
               = (if mode = ''valid-single'' then - (10000000 + 5000)
                  else if mode = ''invalid-single'' then - (30000000 + 5000)
                  else - (10000000 + 5000 + (20000000 + 5000)))"
  using assms by (cases rule: declared_plan_cases) simp_all

theorem fee_charged_per_built_transaction_witness:
  "''valid-bundle'' \<in> set TestModes
   \<and> runTest_prepare (example_world None 0) ''valid-bundle'' []
       = (Inr example_context, example_events)
   \<and> (\<exists>p. declared_plan ''valid-bundle'' example_context = Inr p
           \<and> length (transactions p) = (if includes_str ''valid-bundle'' ''bundle'' then 2 else 1)
           \<and> map lamports_of (transactions p)
               = (if ''valid-bundle'' = ''valid-single'' then [10000000]
                  else if ''valid-bundle'' = ''invalid-single'' then [30000000]
                  else [10000000, 20000000])
           \<and> expectedSenderChange p = - (\<Sum>tx\<leftarrow>transactions p. lamports_of tx + 5000)
           \<and> expectedSenderChange p
               = (if ''valid-bundle'' = ''valid-single'' then - (10000000 + 5000)
                  else if ''valid-bundle'' = ''invalid-single'' then - (30000000 + 5000)
                  else - (10000000 + 5000 + (20000000 + 5000))))"
proof -
  have m: "''valid-bundle'' \<in> set TestModes" by (simp add: TestModes_def)
  have pr: "runTest_prepare (example_world None 0) ''valid-bundle'' []
       = (Inr example_context, example_events)"
    by (rule example_prepared) simp
  show ?thesis
    by (intro conjI m pr fee_charged_per_built_transaction [OF m pr])
qed

end
